theory Spec2Isabelle
  imports Complex_Main
begin

section \<open>Floating-point values\<close>

text \<open>
  The estimators work on NumPy arrays of IEEE doubles. A double is modelled as a finite
  real number or one of the special values \<open>+inf\<close>, \<open>-inf\<close>, \<open>nan\<close>. The arithmetic on
  finite values is exact (rounding, overflow and the sign of zero are left out); the special
  values follow IEEE 754, which is what decides the degenerate inputs: \<open>x / 0\<close> is an
  infinity or \<open>nan\<close>, never an exception, and \<open>0 * inf\<close> and \<open>inf - inf\<close> are \<open>nan\<close>.
\<close>

datatype npfloat = Fin real | PInf | NInf | NaN

fun np_add :: "npfloat \<Rightarrow> npfloat \<Rightarrow> npfloat" where
  "np_add (Fin a) (Fin b) = Fin (a + b)"
| "np_add NaN _ = NaN"
| "np_add _ NaN = NaN"
| "np_add PInf NInf = NaN"
| "np_add NInf PInf = NaN"
| "np_add PInf _ = PInf"
| "np_add _ PInf = PInf"
| "np_add NInf _ = NInf"
| "np_add _ NInf = NInf"

fun np_negative :: "npfloat \<Rightarrow> npfloat" where
  "np_negative (Fin a) = Fin (- a)"
| "np_negative PInf = NInf"
| "np_negative NInf = PInf"
| "np_negative NaN = NaN"

definition np_subtract :: "npfloat \<Rightarrow> npfloat \<Rightarrow> npfloat" where
  "np_subtract x y = np_add x (np_negative y)"

fun np_multiply :: "npfloat \<Rightarrow> npfloat \<Rightarrow> npfloat" where
  "np_multiply (Fin a) (Fin b) = Fin (a * b)"
| "np_multiply NaN _ = NaN"
| "np_multiply _ NaN = NaN"
| "np_multiply PInf (Fin b) = (if b = 0 then NaN else if 0 < b then PInf else NInf)"
| "np_multiply NInf (Fin b) = (if b = 0 then NaN else if 0 < b then NInf else PInf)"
| "np_multiply (Fin a) PInf = (if a = 0 then NaN else if 0 < a then PInf else NInf)"
| "np_multiply (Fin a) NInf = (if a = 0 then NaN else if 0 < a then NInf else PInf)"
| "np_multiply PInf PInf = PInf"
| "np_multiply NInf NInf = PInf"
| "np_multiply PInf NInf = NInf"
| "np_multiply NInf PInf = NInf"

fun np_true_divide :: "npfloat \<Rightarrow> npfloat \<Rightarrow> npfloat" where
  "np_true_divide (Fin a) (Fin b) =
     (if b = 0 then (if a = 0 then NaN else if 0 < a then PInf else NInf) else Fin (a / b))"
| "np_true_divide NaN _ = NaN"
| "np_true_divide _ NaN = NaN"
| "np_true_divide (Fin a) PInf = Fin 0"
| "np_true_divide (Fin a) NInf = Fin 0"
| "np_true_divide PInf (Fin b) = (if 0 \<le> b then PInf else NInf)"
| "np_true_divide NInf (Fin b) = (if 0 \<le> b then NInf else PInf)"
| "np_true_divide PInf PInf = NaN"
| "np_true_divide PInf NInf = NaN"
| "np_true_divide NInf PInf = NaN"
| "np_true_divide NInf NInf = NaN"

definition np_square :: "npfloat \<Rightarrow> npfloat" where
  "np_square x = np_multiply x x"

text \<open>Comparisons: every comparison with \<open>nan\<close> is false, also \<open>nan == nan\<close>.\<close>

fun np_less :: "npfloat \<Rightarrow> npfloat \<Rightarrow> bool" where
  "np_less (Fin a) (Fin b) = (a < b)"
| "np_less NaN _ = False"
| "np_less _ NaN = False"
| "np_less NInf NInf = False"
| "np_less NInf _ = True"
| "np_less _ NInf = False"
| "np_less PInf _ = False"
| "np_less _ PInf = True"

fun np_equal :: "npfloat \<Rightarrow> npfloat \<Rightarrow> bool" where
  "np_equal (Fin a) (Fin b) = (a = b)"
| "np_equal PInf PInf = True"
| "np_equal NInf NInf = True"
| "np_equal _ _ = False"

text \<open>Python's built-in \<^verbatim>\<open>min(a, b)\<close>: the second argument only if it is smaller.\<close>

definition py_min :: "npfloat \<Rightarrow> npfloat \<Rightarrow> npfloat" where
  "py_min a b = (if np_less b a then b else a)"

fun isfinite :: "npfloat \<Rightarrow> bool" where
  "isfinite (Fin a) = True"
| "isfinite _ = False"

fun the_real :: "npfloat \<Rightarrow> real" where
  "the_real (Fin a) = a"
| "the_real _ = 0"

section \<open>Arrays\<close>

text \<open>
  The \<^verbatim>\<open>features\<close> argument is a two-dimensional array of shape \<open>(shape0, shape1)\<close>:
  \<open>shape0\<close> samples (rows) of \<open>shape1\<close> features (columns). The shape is kept beside the
  rows, so that an array without rows still has a number of columns. A two-dimensional
  array cannot be ragged; \<open>is_ndarray2\<close> says that the rows agree with the shape.
\<close>

record ndarray2 =
  shape0 :: nat
  shape1 :: nat
  cells :: "npfloat list list"

definition is_ndarray2 :: "ndarray2 \<Rightarrow> bool" where
  "is_ndarray2 a \<longleftrightarrow>
     length (cells a) = shape0 a \<and> list_all (\<lambda>r. length r = shape1 a) (cells a)"

definition all_finite :: "ndarray2 \<Rightarrow> bool" where
  "all_finite a \<longleftrightarrow> list_all (list_all isfinite) (cells a)"

text \<open>What the estimators return: arrays of dimension 0, 1 or 2.\<close>

datatype ndarray = Arr0 npfloat | Arr1 "npfloat list" | Arr2 "npfloat list list"

text \<open>\<^verbatim>\<open>a.T\<close> as the list of its rows, that is the columns of \<open>a\<close>.\<close>

definition np_transpose :: "ndarray2 \<Rightarrow> npfloat list list" where
  "np_transpose a = map (\<lambda>j. map (\<lambda>r. r ! j) (cells a)) [0..<shape1 a]"

text \<open>\<^verbatim>\<open>np.sum\<close> of a vector, and \<^verbatim>\<open>np.dot\<close> of two vectors.\<close>

definition np_sum :: "npfloat list \<Rightarrow> npfloat" where
  "np_sum xs = foldl np_add (Fin 0) xs"

definition np_dot :: "npfloat list \<Rightarrow> npfloat list \<Rightarrow> npfloat" where
  "np_dot u v = np_sum (map2 np_multiply u v)"

text \<open>
  The mean of each of the given vectors of \<open>n\<close> entries: the sum divided by the count,
  with no guard for \<open>n = 0\<close> (NumPy warns and returns \<open>nan\<close>).
\<close>

definition np_mean_rows :: "nat \<Rightarrow> npfloat list list \<Rightarrow> npfloat list" where
  "np_mean_rows n vs = map (\<lambda>v. np_true_divide (np_sum v) (Fin (real n))) vs"

text \<open>\<^verbatim>\<open>np.mean(a, axis=0)\<close>: one mean per column.\<close>

definition np_mean_axis0 :: "ndarray2 \<Rightarrow> npfloat list" where
  "np_mean_axis0 a = np_mean_rows (shape0 a) (np_transpose a)"

text \<open>\<^verbatim>\<open>c.squeeze()\<close> of a square matrix: a 1 x 1 matrix becomes a 0-dimensional array.\<close>

definition np_squeeze2 :: "npfloat list list \<Rightarrow> ndarray" where
  "np_squeeze2 c = (case c of [[x]] \<Rightarrow> Arr0 x | _ \<Rightarrow> Arr2 c)"

text \<open>
  \<^verbatim>\<open>np.cov(m, rowvar=False)\<close> with its defaults \<^verbatim>\<open>bias=False, ddof=None\<close>, for a
  two-dimensional \<open>m\<close>. It starts with \<^verbatim>\<open>X = array(m, ndmin=2)\<close> and then transposes
  \<open>X\<close>, so that it has one row per variable; the test in front of \<^verbatim>\<open>X = X.T\<close> is not
  the same in every release of NumPy, and the repository pins none:

    \<^item> before NumPy 2.2: \<^verbatim>\<open>if not rowvar and X.shape[0] != 1\<close>, so an input of a single row
      is left as it is and is read as one variable with \<open>shape1\<close> observations;
    \<^item> from NumPy 2.2 on: \<^verbatim>\<open>if not rowvar and m.ndim != 1\<close>, so every two-dimensional input
      is transposed, also one with a single row.

  The two agree on every input that does not have exactly one row.
\<close>

datatype numpy_release = NumPy_before_2_2 | NumPy_from_2_2

definition np_cov_transposes :: "numpy_release \<Rightarrow> ndarray2 \<Rightarrow> bool" where
  "np_cov_transposes release m =
     (case release of NumPy_before_2_2 \<Rightarrow> shape0 m \<noteq> 1 | NumPy_from_2_2 \<Rightarrow> True)"

text \<open>
  The rest of \<^verbatim>\<open>np.cov\<close>, for \<open>X\<close> of shape \<open>(n_vars, n_obs)\<close>: an empty \<open>X\<close>
  (\<^verbatim>\<open>X.shape[0] == 0\<close>) gives an empty 0 x 0 array; otherwise \<open>ddof = 1\<close>, \<open>avg\<close> is the
  mean of each variable, \<open>fact = X.shape[1] - ddof\<close>, replaced by \<open>0.0\<close> when it is not
  positive (a warning, no exception), \<open>X -= avg[:, None]\<close>, \<open>c = dot(X, X.T)\<close>,
  \<open>c *= true_divide(1, fact)\<close>, and the result is \<open>c.squeeze()\<close>.
\<close>

definition np_cov_of_variables :: "nat \<Rightarrow> nat \<Rightarrow> npfloat list list \<Rightarrow> ndarray" where
  "np_cov_of_variables n_vars n_obs X =
     (if n_vars = 0 then Arr2 []
      else
        let avg = np_mean_rows n_obs X;
            fact = (if int n_obs - 1 \<le> 0 then Fin 0
                    else Fin (real_of_int (int n_obs - 1)));
            Xc = map2 (\<lambda>v a. map (\<lambda>x. np_subtract x a) v) X avg;
            c = map (\<lambda>u. map (\<lambda>v. np_multiply (np_dot u v) (np_true_divide (Fin 1) fact)) Xc) Xc
        in np_squeeze2 c)"

definition np_cov_rowvar_false :: "numpy_release \<Rightarrow> ndarray2 \<Rightarrow> ndarray" where
  "np_cov_rowvar_false release m =
     (if np_cov_transposes release m
      then np_cov_of_variables (shape1 m) (shape0 m) (np_transpose m)
      else np_cov_of_variables (shape0 m) (shape1 m) (cells m))"

section \<open>The estimators\<close>

text \<open>
  Both estimators implement \<^verbatim>\<open>estimate_parameters(features) -> (mean, covariance)\<close>. An
  exception is a value \<open>Inl e\<close>. The only exceptions that can leave either method are the
  ones scikit-learn raises while it validates; they are all \<^verbatim>\<open>ValueError\<close>s (the
  constructors keep apart what was wrong), apart from the \<^verbatim>\<open>AttributeError\<close> of reading
  an attribute that was never set.
\<close>

datatype estimator_error =
    ValueError_not_finite
  | ValueError_no_samples
  | ValueError_no_features
  | InvalidParameterError
  | AttributeError

subsection \<open>MaxLikelihoodEstimator\<close>

text \<open>
  \<^verbatim>\<open>
  def estimate_parameters(self, features):
      mean = np.mean(features, axis=0)
      covariance = np.cov(features, rowvar=False)
      return mean, covariance
  \<close>
  The object has no attribute of its own, so the method is a function of \<open>features\<close>
  and of the NumPy release it runs on.
\<close>

definition mle_estimate_parameters ::
  "numpy_release \<Rightarrow> ndarray2 \<Rightarrow> estimator_error + ndarray \<times> ndarray" where
  "mle_estimate_parameters release features =
     (let mean = Arr1 (np_mean_axis0 features);
          covariance = np_cov_rowvar_false release features
      in Inr (mean, covariance))"

subsection \<open>scikit-learn's LedoitWolf\<close>

text \<open>
  \<^verbatim>\<open>LeoditWolfEstimator\<close> owns a \<^verbatim>\<open>sklearn.covariance.LedoitWolf\<close> object and calls its
  \<^verbatim>\<open>fit\<close>. The functions below follow scikit-learn's
  \<^verbatim>\<open>covariance/_shrunk_covariance.py\<close> and \<^verbatim>\<open>_empirical_covariance.py\<close>, with
  \<^verbatim>\<open>assume_centered=True\<close> in the inner calls, as \<^verbatim>\<open>fit\<close> makes them.

  \<^verbatim>\<open>check_array\<close>, for a two-dimensional array: every entry finite (when asked), at least
  one sample, at least one feature.
\<close>

definition check_array :: "bool \<Rightarrow> ndarray2 \<Rightarrow> estimator_error + ndarray2" where
  "check_array force_all_finite X =
     (if force_all_finite \<and> \<not> all_finite X then Inl ValueError_not_finite
      else if shape0 X < 1 then Inl ValueError_no_samples
      else if shape1 X < 1 then Inl ValueError_no_features
      else Inr X)"

text \<open>The slice \<^verbatim>\<open>[block_size * i : block_size * (i + 1)]\<close>.\<close>

definition blk :: "nat \<Rightarrow> nat \<Rightarrow> 'a list \<Rightarrow> 'a list" where
  "blk b i xs = take b (drop (b * i) xs)"

text \<open>
  \<^verbatim>\<open>np.sum(np.dot(A, B))\<close> and \<^verbatim>\<open>np.sum(np.dot(A, B) ** 2)\<close>, with \<open>A\<close> given by its rows
  and \<open>B\<close> by its columns.
\<close>

definition sum_dot :: "npfloat list list \<Rightarrow> npfloat list list \<Rightarrow> npfloat" where
  "sum_dot A B = np_sum (concat (map (\<lambda>u. map (\<lambda>v. np_dot u v) B) A))"

definition sum_dot_sq :: "npfloat list list \<Rightarrow> npfloat list list \<Rightarrow> npfloat" where
  "sum_dot_sq A B = np_sum (concat (map (\<lambda>u. map (\<lambda>v. np_square (np_dot u v)) B) A))"

text \<open>
  One pair of updates of the two accumulators:
  \<^verbatim>\<open>beta_ += np.sum(np.dot(X2.T[rows], X2[:, cols]))\<close> and
  \<^verbatim>\<open>delta_ += np.sum(np.dot(X.T[rows], X[:, cols]) ** 2)\<close>.
\<close>

definition lw_accumulate ::
  "npfloat list list \<Rightarrow> npfloat list list \<Rightarrow> npfloat list list \<Rightarrow> npfloat list list
     \<Rightarrow> npfloat \<times> npfloat \<Rightarrow> npfloat \<times> npfloat" where
  "lw_accumulate A2 B2 A B acc =
     (case acc of (beta_sum, delta_sum) \<Rightarrow>
        (np_add beta_sum (sum_dot A2 B2), np_add delta_sum (sum_dot_sq A B)))"

text \<open>
  The block computation of \<^verbatim>\<open>ledoit_wolf_shrinkage\<close>: the features are cut into
  \<open>n_splits\<close> blocks of \<open>block_size\<close> columns and a rest, and \<^verbatim>\<open>beta_\<close> and
  \<^verbatim>\<open>delta_\<close> are accumulated over all pairs of blocks:
  \<^verbatim>\<open>
  for i in range(n_splits):
      for j in range(n_splits):
          (block i, block j)
      (block i, rest)
  for j in range(n_splits):
      (rest, block j)
  delta_ += (rest, rest); delta_ /= n_samples**2; beta_ += (rest, rest)
  \<close>
\<close>

definition lw_block_sums ::
  "nat \<Rightarrow> nat \<Rightarrow> nat \<Rightarrow> npfloat list list \<Rightarrow> npfloat list list \<Rightarrow> npfloat \<times> npfloat" where
  "lw_block_sums block_size n_splits n_samples XT X2T =
     (let rest = drop (block_size * n_splits);
          acc = foldl (\<lambda>acc i.
                  let acc = foldl (\<lambda>acc j.
                              lw_accumulate (blk block_size i X2T) (blk block_size j X2T)
                                (blk block_size i XT) (blk block_size j XT) acc)
                            acc [0..<n_splits]
                  in lw_accumulate (blk block_size i X2T) (rest X2T)
                       (blk block_size i XT) (rest XT) acc)
                (Fin 0, Fin 0) [0..<n_splits];
          acc = foldl (\<lambda>acc j.
                  lw_accumulate (rest X2T) (blk block_size j X2T) (rest XT) (blk block_size j XT) acc)
                  acc [0..<n_splits]
      in (case acc of (beta_sum, delta_sum) \<Rightarrow>
           let delta_sum = np_add delta_sum (sum_dot_sq (rest XT) (rest XT));
               delta_sum = np_true_divide delta_sum (Fin (real (n_samples ^ 2)));
               beta_sum = np_add beta_sum (sum_dot (rest X2T) (rest X2T))
           in (beta_sum, delta_sum)))"

text \<open>
  \<^verbatim>\<open>ledoit_wolf_shrinkage(X, assume_centered=True, block_size)\<close>:
  \<^verbatim>\<open>
  n_splits = int(n_features / block_size)
  X2 = X**2
  emp_cov_trace = np.sum(X2, axis=0) / n_samples
  mu = np.sum(emp_cov_trace) / n_features
  ... the block computation ...
  beta = 1.0 / (n_features * n_samples) * (beta_ / n_samples - delta_)
  delta = delta_ - 2.0 * mu * emp_cov_trace.sum() + n_features * mu**2
  delta /= n_features
  beta = min(beta, delta)
  shrinkage = 0 if beta == 0 else beta / delta
  \<close>
\<close>

definition ledoit_wolf_shrinkage :: "ndarray2 \<Rightarrow> nat \<Rightarrow> estimator_error + npfloat" where
  "ledoit_wolf_shrinkage X0 block_size =
     (case check_array True X0 of
        Inl e \<Rightarrow> Inl e
      | Inr X \<Rightarrow>
          if shape1 X = 1 then Inr (Fin 0)
          else
            let n_samples = shape0 X;
                n_features = shape1 X;
                n_splits = n_features div block_size;
                XT = np_transpose X;
                X2T = map (map np_square) XT;
                emp_cov_trace = map (\<lambda>c. np_true_divide (np_sum c) (Fin (real n_samples))) X2T;
                mu = np_true_divide (np_sum emp_cov_trace) (Fin (real n_features))
            in (case lw_block_sums block_size n_splits n_samples XT X2T of
                 (beta_sum, delta_sum) \<Rightarrow>
                   let beta = np_multiply
                                (np_true_divide (Fin 1) (Fin (real (n_features * n_samples))))
                                (np_subtract (np_true_divide beta_sum (Fin (real n_samples)))
                                   delta_sum);
                       delta = np_add
                                 (np_subtract delta_sum
                                    (np_multiply (np_multiply (Fin 2) mu) (np_sum emp_cov_trace)))
                                 (np_multiply (Fin (real n_features)) (np_square mu));
                       delta = np_true_divide delta (Fin (real n_features));
                       beta = py_min beta delta;
                       shrinkage = (if np_equal beta (Fin 0) then Fin 0
                                    else np_true_divide beta delta)
                   in Inr shrinkage))"

text \<open>
  \<^verbatim>\<open>empirical_covariance(X, assume_centered=True)\<close>: \<^verbatim>\<open>np.dot(X.T, X) / X.shape[0]\<close>,
  after a \<^verbatim>\<open>check_array\<close> that does not ask for finite entries.
\<close>

definition empirical_covariance :: "ndarray2 \<Rightarrow> estimator_error + npfloat list list" where
  "empirical_covariance X0 =
     (case check_array False X0 of
        Inl e \<Rightarrow> Inl e
      | Inr X \<Rightarrow>
          let XT = np_transpose X
          in Inr (map (\<lambda>u. map (\<lambda>v. np_true_divide (np_dot u v) (Fin (real (shape0 X)))) XT) XT))"

definition np_trace :: "npfloat list list \<Rightarrow> npfloat" where
  "np_trace c = np_sum (map (\<lambda>i. c ! i ! i) [0..<length c])"

text \<open>
  \<^verbatim>\<open>_ledoit_wolf(X, assume_centered=True, block_size)\<close>: with a single feature the
  covariance is the mean of the squares and the shrinkage is \<open>0.0\<close>; otherwise
  \<^verbatim>\<open>
  shrinkage = ledoit_wolf_shrinkage(X, assume_centered=True, block_size=block_size)
  emp_cov = empirical_covariance(X, assume_centered=True)
  mu = np.sum(np.trace(emp_cov)) / n_features
  shrunk_cov = (1.0 - shrinkage) * emp_cov
  shrunk_cov.flat[:: n_features + 1] += shrinkage * mu
  \<close>
\<close>

definition ledoit_wolf ::
  "ndarray2 \<Rightarrow> nat \<Rightarrow> estimator_error + npfloat list list \<times> npfloat" where
  "ledoit_wolf X block_size =
     (if shape1 X = 1 then
        Inr ([[np_true_divide (np_sum (map np_square (concat (cells X))))
                 (Fin (real (shape0 X * shape1 X)))]], Fin 0)
      else
        let n_features = shape1 X in
        (case ledoit_wolf_shrinkage X block_size of
           Inl e \<Rightarrow> Inl e
         | Inr shrinkage \<Rightarrow>
             (case empirical_covariance X of
                Inl e \<Rightarrow> Inl e
              | Inr emp_cov \<Rightarrow>
                  let mu = np_true_divide (np_trace emp_cov) (Fin (real n_features));
                      scaled = map (map (np_multiply (np_subtract (Fin 1) shrinkage))) emp_cov;
                      shrunk_cov = map (\<lambda>i. map (\<lambda>j.
                                     if i = j then np_add (scaled ! i ! j) (np_multiply shrinkage mu)
                                     else scaled ! i ! j) [0..<n_features]) [0..<n_features]
                  in Inr (shrunk_cov, shrinkage))))"

text \<open>
  The \<^verbatim>\<open>LedoitWolf\<close> object: its two parameters and the attributes \<^verbatim>\<open>fit\<close> sets
  (\<^verbatim>\<open>n_features_in_\<close>, \<^verbatim>\<open>location_\<close>, \<^verbatim>\<open>covariance_\<close>, \<^verbatim>\<open>shrinkage_\<close>; an absent
  attribute is \<open>None\<close>). \<^verbatim>\<open>precision_\<close>, the pseudo-inverse of the covariance that
  \<^verbatim>\<open>fit\<close> also stores, is never read by the estimator and is left out.
\<close>

record LedoitWolf =
  assume_centered :: bool
  block_size :: int
  n_features_in :: "nat option"
  location :: "npfloat list option"
  covariance :: "npfloat list list option"
  shrinkage :: "npfloat option"

definition LedoitWolf_init :: "bool \<Rightarrow> int \<Rightarrow> LedoitWolf" where
  "LedoitWolf_init ac bs =
     \<lparr>assume_centered = ac, block_size = bs, n_features_in = None, location = None,
      covariance = None, shrinkage = None\<rparr>"

text \<open>The broadcast \<^verbatim>\<open>X - self.location_\<close>.\<close>

definition subtract_row :: "ndarray2 \<Rightarrow> npfloat list \<Rightarrow> ndarray2" where
  "subtract_row X v = X\<lparr>cells := map (\<lambda>r. map2 np_subtract r v) (cells X)\<rparr>"

text \<open>
  \<^verbatim>\<open>LedoitWolf.fit\<close>: the parameters are validated (\<open>block_size\<close> is an integer, at least
  1), then the data, then
  \<^verbatim>\<open>
  if self.assume_centered: self.location_ = np.zeros(X.shape[1])
  else:                    self.location_ = X.mean(0)
  covariance, shrinkage = _ledoit_wolf(X - self.location_, assume_centered=True,
                                        block_size=self.block_size)
  self.shrinkage_ = shrinkage
  self._set_covariance(covariance)
  return self
  \<close>
  The result is the exception, if any, and the object as it is afterwards.
\<close>

definition LedoitWolf_fit :: "LedoitWolf \<Rightarrow> ndarray2 \<Rightarrow> estimator_error option \<times> LedoitWolf" where
  "LedoitWolf_fit self X0 =
     (if block_size self < 1 then (Some InvalidParameterError, self)
      else case check_array True X0 of
        Inl e \<Rightarrow> (Some e, self)
      | Inr X \<Rightarrow>
          let self1 = self\<lparr>n_features_in := Some (shape1 X)\<rparr>;
              loc = (if assume_centered self1 then replicate (shape1 X) (Fin 0)
                     else np_mean_axis0 X);
              self2 = self1\<lparr>location := Some loc\<rparr>
          in (case ledoit_wolf (subtract_row X loc) (nat (block_size self2)) of
                Inl e \<Rightarrow> (Some e, self2)
              | Inr (cov, shr) \<Rightarrow>
                  (None, self2\<lparr>shrinkage := Some shr, covariance := Some cov\<rparr>)))"

subsection \<open>LeoditWolfEstimator\<close>

text \<open>
  \<^verbatim>\<open>
  def __init__(self, block_size: int = 1000):
      super().__init__()
      self.model = LedoitWolf(assume_centered=False, block_size=block_size)

  def estimate_parameters(self, features):
      results = self.model.fit(features)
      mean = results.location_
      cov = results.covariance_
      return mean, cov
  \<close>
  The constructor's argument is optional; \<open>None\<close> stands for the call without it. The
  method returns its result (or the exception) and the estimator as it is afterwards.
\<close>

record LeoditWolfEstimator =
  model :: LedoitWolf

definition LeoditWolfEstimator_init :: "int option \<Rightarrow> LeoditWolfEstimator" where
  "LeoditWolfEstimator_init bs =
     \<lparr>model = LedoitWolf_init False (case bs of None \<Rightarrow> 1000 | Some b \<Rightarrow> b)\<rparr>"

definition lw_estimate_parameters ::
  "LeoditWolfEstimator \<Rightarrow> ndarray2
     \<Rightarrow> (estimator_error + ndarray \<times> ndarray) \<times> LeoditWolfEstimator" where
  "lw_estimate_parameters self features =
     (case LedoitWolf_fit (model self) features of
        (Some e, m) \<Rightarrow> (Inl e, self\<lparr>model := m\<rparr>)
      | (None, results) \<Rightarrow>
          (case location results of
             None \<Rightarrow> (Inl AttributeError, self\<lparr>model := results\<rparr>)
           | Some mean \<Rightarrow>
               (case covariance results of
                  None \<Rightarrow> (Inl AttributeError, self\<lparr>model := results\<rparr>)
                | Some cov \<Rightarrow> (Inr (Arr1 mean, Arr2 cov), self\<lparr>model := results\<rparr>))))"

section \<open>The statistics the specification names\<close>

text \<open>
  The data of an all-finite array as real numbers, and the textbook quantities over a list
  of rows with \<open>d\<close> columns: the average of the rows, the unbiased sample covariance
  (rows are samples, columns are features, divisor \<open>n - 1\<close>) and the sample covariance
  about the mean with divisor \<open>n\<close>.
\<close>

definition reals :: "ndarray2 \<Rightarrow> real list list" where
  "reals a = map (map the_real) (cells a)"

definition average_of_rows :: "nat \<Rightarrow> real list list \<Rightarrow> real list" where
  "average_of_rows d rows = map (\<lambda>j. (\<Sum>r\<leftarrow>rows. r ! j) / real (length rows)) [0..<d]"

definition unbiased_sample_covariance :: "nat \<Rightarrow> real list list \<Rightarrow> real list list" where
  "unbiased_sample_covariance d rows =
     (let mu = average_of_rows d rows in
      map (\<lambda>i. map (\<lambda>j. (\<Sum>r\<leftarrow>rows. (r ! i - mu ! i) * (r ! j - mu ! j))
                          / (real (length rows) - 1))
                 [0..<d]) [0..<d])"

definition sample_covariance :: "nat \<Rightarrow> real list list \<Rightarrow> real list list" where
  "sample_covariance d rows =
     (let mu = average_of_rows d rows in
      map (\<lambda>i. map (\<lambda>j. (\<Sum>r\<leftarrow>rows. (r ! i - mu ! i) * (r ! j - mu ! j)) / real (length rows))
                 [0..<d]) [0..<d])"

text \<open>
  The unbiased variance of a list of numbers: the squared deviations from their mean,
  summed and divided by one less than their count.
\<close>

definition unbiased_variance :: "real list \<Rightarrow> real" where
  "unbiased_variance xs =
     (let m = sum_list xs / real (length xs) in
      (\<Sum>x\<leftarrow>xs. (x - m) * (x - m)) / (real (length xs) - 1))"

text \<open>Columns, centring and the dot product of two real vectors.\<close>

definition rdot :: "real list \<Rightarrow> real list \<Rightarrow> real" where
  "rdot u v = (\<Sum>(a, b)\<leftarrow>zip u v. a * b)"

definition rcols :: "nat \<Rightarrow> real list list \<Rightarrow> real list list" where
  "rcols d rows = map (\<lambda>j. map (\<lambda>r. r ! j) rows) [0..<d]"

definition rcenter :: "nat \<Rightarrow> real list \<Rightarrow> real list" where
  "rcenter n c = map (\<lambda>x. x - sum_list c / real n) c"

definition centered_rows :: "nat \<Rightarrow> real list list \<Rightarrow> real list list" where
  "centered_rows d rows = map (\<lambda>r. map2 (-) r (average_of_rows d rows)) rows"

definition pair_sum :: "('a \<Rightarrow> 'b \<Rightarrow> real) \<Rightarrow> 'a list \<Rightarrow> 'b list \<Rightarrow> real" where
  "pair_sum f A B = (\<Sum>u\<leftarrow>A. \<Sum>v\<leftarrow>B. f u v)"

text \<open>
  The Ledoit-Wolf shrinkage intensity without blocks, for \<open>n\<close> centred samples given by
  their columns \<open>C\<close>: with \<open>S = C C\<^sup>T / n\<close>, \<open>mu = trace S / d\<close>,
  \<open>beta = (sum over i, j, k of (x k i * x k j)\<^sup>2 / n - sum over i, j of (n * S i j)\<^sup>2 / n\<^sup>2) / (d * n)\<close> and
  \<open>delta\<close> the squared Frobenius norm of \<open>S - mu * Id\<close> over \<open>d\<close>, the intensity is
  \<open>min beta delta / delta\<close>, and \<open>0\<close> when \<open>min beta delta = 0\<close>.
\<close>

definition lw_trace :: "nat \<Rightarrow> real list list \<Rightarrow> real list" where
  "lw_trace n C = map (\<lambda>c. sum_list c / real n) (map (map (\<lambda>x. x * x)) C)"

definition lw_mu :: "nat \<Rightarrow> real list list \<Rightarrow> real" where
  "lw_mu n C = sum_list (lw_trace n C) / real (length C)"

definition lw_beta :: "nat \<Rightarrow> real list list \<Rightarrow> real" where
  "lw_beta n C =
     1 / real (length C * n)
       * (pair_sum rdot (map (map (\<lambda>x. x * x)) C) (map (map (\<lambda>x. x * x)) C) / real n
          - pair_sum (\<lambda>u v. (rdot u v)\<^sup>2) C C / real (n ^ 2))"

definition lw_delta :: "nat \<Rightarrow> real list list \<Rightarrow> real" where
  "lw_delta n C =
     (pair_sum (\<lambda>u v. (rdot u v)\<^sup>2) C C / real (n ^ 2)
        - 2 * lw_mu n C * sum_list (lw_trace n C)
        + real (length C) * (lw_mu n C * lw_mu n C))
      / real (length C)"

definition lw_shrinkage :: "nat \<Rightarrow> real list list \<Rightarrow> real" where
  "lw_shrinkage n C =
     (let b = min (lw_beta n C) (lw_delta n C) in if b = 0 then 0 else b / lw_delta n C)"

definition emp_cov :: "nat \<Rightarrow> real list list \<Rightarrow> real list list" where
  "emp_cov n C = map (\<lambda>u. map (\<lambda>v. rdot u v / real n) C) C"

definition lw_cov :: "nat \<Rightarrow> real list list \<Rightarrow> real list list" where
  "lw_cov n C =
     (let d = length C; S = emp_cov n C; s = lw_shrinkage n C;
          mu = (\<Sum>i\<leftarrow>[0..<d]. S ! i ! i) / real d
      in map (\<lambda>i. map (\<lambda>j. (1 - s) * (S ! i ! j) + (if i = j then s * mu else 0)) [0..<d]) [0..<d])"

text \<open>
  The shrunk covariance of a list of rows: the convex combination
  \<open>(1 - s) * S + s * mu * Id\<close> of the sample covariance \<open>S\<close> and the identity scaled by the
  mean \<open>mu\<close> of the diagonal of \<open>S\<close>, with the Ledoit-Wolf intensity \<open>s\<close>.
\<close>

definition shrinkage_intensity :: "nat \<Rightarrow> real list list \<Rightarrow> real" where
  "shrinkage_intensity d rows = lw_shrinkage (length rows) (rcols d (centered_rows d rows))"

definition shrunk_covariance :: "nat \<Rightarrow> real list list \<Rightarrow> real list list" where
  "shrunk_covariance d rows =
     (let S = sample_covariance d rows;
          s = shrinkage_intensity d rows;
          mu = (\<Sum>i\<leftarrow>[0..<d]. S ! i ! i) / real d
      in map (\<lambda>i. map (\<lambda>j. (1 - s) * (S ! i ! j) + (if i = j then s * mu else 0)) [0..<d]) [0..<d])"

text \<open>
  Properties of a covariance matrix. \<open>np_atleast_2d\<close> reads a returned array as a matrix;
  symmetry compares entries as NumPy's \<open>==\<close> does; \<open>quad_form M x\<close> is \<open>x\<^sup>T M x\<close> and
  \<open>norm2 x\<close> is \<open>x\<^sup>T x\<close>.
\<close>

definition np_atleast_2d :: "ndarray \<Rightarrow> npfloat list list" where
  "np_atleast_2d a = (case a of Arr0 x \<Rightarrow> [[x]] | Arr1 v \<Rightarrow> [v] | Arr2 c \<Rightarrow> c)"

definition is_symmetric :: "npfloat list list \<Rightarrow> bool" where
  "is_symmetric c \<longleftrightarrow>
     list_all (\<lambda>i. list_all (\<lambda>j. np_equal (c ! i ! j) (c ! j ! i)) [0..<length c]) [0..<length c]"

definition quad_form :: "real list list \<Rightarrow> real list \<Rightarrow> real" where
  "quad_form M x = (\<Sum>i\<leftarrow>[0..<length M]. \<Sum>j\<leftarrow>[0..<length M]. x ! i * (M ! i ! j) * x ! j)"

definition norm2 :: "real list \<Rightarrow> real" where
  "norm2 x = (\<Sum>i\<leftarrow>[0..<length x]. x ! i * x ! i)"

text \<open>
  The condition number of a symmetric positive semi-definite matrix is the largest ratio of
  two of its Rayleigh quotients \<open>x\<^sup>T M x / x\<^sup>T x\<close>. \<open>cond_le M \<kappa>\<close> says that it is at most
  \<open>\<kappa>\<close>, written without division; no \<open>\<kappa>\<close> bounds a singular matrix other than zero.
\<close>

definition cond_le :: "real list list \<Rightarrow> real \<Rightarrow> bool" where
  "cond_le M \<kappa> \<longleftrightarrow>
     (\<forall>x y. length x = length M \<and> length y = length M \<longrightarrow>
        quad_form M x * norm2 y \<le> \<kappa> * (quad_form M y * norm2 x))"

section \<open>Concrete inputs\<close>

definition m32 :: ndarray2 where
  "m32 = \<lparr>shape0 = 3, shape1 = 2, cells = [[Fin 1, Fin 2], [Fin 3, Fin 5], [Fin 8, Fin 13]]\<rparr>"

definition nan_features :: ndarray2 where
  "nan_features = \<lparr>shape0 = 2, shape1 = 2, cells = [[NaN, Fin 1], [Fin 2, Fin 3]]\<rparr>"

definition single_row_4 :: ndarray2 where
  "single_row_4 = \<lparr>shape0 = 1, shape1 = 4, cells = [[Fin 1, Fin 2, Fin 3, Fin 4]]\<rparr>"

definition no_rows_3 :: ndarray2 where
  "no_rows_3 = \<lparr>shape0 = 0, shape1 = 3, cells = []\<rparr>"

definition no_columns_2 :: ndarray2 where
  "no_columns_2 = \<lparr>shape0 = 2, shape1 = 0, cells = [[], []]\<rparr>"

definition single_entry :: ndarray2 where
  "single_entry = \<lparr>shape0 = 1, shape1 = 1, cells = [[Fin 5]]\<rparr>"

definition single_sample :: ndarray2 where
  "single_sample = \<lparr>shape0 = 1, shape1 = 1, cells = [[Fin 1]]\<rparr>"

definition m33 :: ndarray2 where
  "m33 = \<lparr>shape0 = 3, shape1 = 3,
           cells = [[Fin 1, Fin 2, Fin 0], [Fin 3, Fin 5, Fin 1], [Fin 8, Fin 13, Fin 7]]\<rparr>"

definition ones_10x128 :: ndarray2 where
  "ones_10x128 = \<lparr>shape0 = 10, shape1 = 128, cells = replicate 10 (replicate 128 (Fin 1))\<rparr>"

section \<open>Feature extractors: dispatch on the dataset extension\<close>

text \<open>
  \<^verbatim>\<open>CLaMPExtractor.extract_features_from_path\<close> and
  \<^verbatim>\<open>CLaMP2Extractor.extract_features_from_path\<close> ask \<^verbatim>\<open>get_dataset_ext\<close> for the
  extension of the dataset, pick a data loader by comparing that string with literals, and
  hand the loaded data to \<^verbatim>\<open>FeatureExtractor.extract_features\<close>. The helper, the loaders
  and the base class live in other modules; they are parameters of the model, each of them
  may raise, and every call of a loader or of the base class is recorded in a trace, so that
  "nothing was loaded" is the empty trace.
\<close>

datatype py_error =
    ValueError string
  | Raised string \<comment> \<open>any exception coming out of a collaborator\<close>

datatype event =
    AbcLoadDatasetAsync string
  | MidiLoadDatasetAsync string
  | ExtractFeatures

record ('d, 'f) collaborators =
  get_dataset_ext :: "string \<Rightarrow> py_error + string"
  abc_load_dataset_async :: "string \<Rightarrow> py_error + 'd"
  midi_load_dataset_async :: "string \<Rightarrow> py_error + 'd"
  extract_features :: "'d \<Rightarrow> py_error + 'f"

text \<open>The tail shared by both methods: \<^verbatim>\<open>return super().extract_features(data)\<close>.\<close>

definition super_extract_features ::
  "('d, 'f) collaborators \<Rightarrow> event list \<Rightarrow> py_error + 'd \<Rightarrow> event list \<times> (py_error + 'f)" where
  "super_extract_features env tr loaded =
     (case loaded of
        Inl e \<Rightarrow> (tr, Inl e)
      | Inr data \<Rightarrow> (tr @ [ExtractFeatures], extract_features env data))"

definition clamp_extract_features_from_path ::
  "('d, 'f) collaborators \<Rightarrow> string \<Rightarrow> event list \<times> (py_error + 'f)" where
  "clamp_extract_features_from_path env dataset_path =
     (case get_dataset_ext env dataset_path of
        Inl e \<Rightarrow> ([], Inl e)
      | Inr extension \<Rightarrow>
          if extension = ''.abc'' then
            super_extract_features env [AbcLoadDatasetAsync dataset_path]
              (abc_load_dataset_async env dataset_path)
          else ([], Inl (ValueError (''CLAmP supports .abc files but got '' @ extension))))"

definition clamp2_extract_features_from_path ::
  "('d, 'f) collaborators \<Rightarrow> string \<Rightarrow> event list \<times> (py_error + 'f)" where
  "clamp2_extract_features_from_path env dataset_path =
     (case get_dataset_ext env dataset_path of
        Inl e \<Rightarrow> ([], Inl e)
      | Inr extension \<Rightarrow>
          if extension \<in> set [''.mid'', ''.midi''] then
            super_extract_features env [MidiLoadDatasetAsync dataset_path]
              (midi_load_dataset_async env dataset_path)
          else if extension = ''.abc'' then
            super_extract_features env [AbcLoadDatasetAsync dataset_path]
              (abc_load_dataset_async env dataset_path)
          else ([], Inl (ValueError
                  (''CLAmP 2 supports .mid, .midi and .abc files but got '' @ extension))))"

text \<open>A concrete set of collaborators, used to run the two methods on an input.\<close>

definition demo_env :: "(string, nat) collaborators" where
  "demo_env =
     \<lparr> get_dataset_ext = (\<lambda>p. Inr (dropWhile (\<lambda>c. c \<noteq> CHR ''.'') p)),
       abc_load_dataset_async = (\<lambda>p. Inr p),
       midi_load_dataset_async = (\<lambda>p. Inr p),
       extract_features = (\<lambda>d. Inr (length d)) \<rparr>"

section \<open>Finite data: the arithmetic is the arithmetic of the reals\<close>

lemma np_sum_Fin_aux: "foldl np_add (Fin a) (map Fin xs) = Fin (a + sum_list xs)"
  by (induction xs arbitrary: a) (simp_all add: add.assoc)

lemma np_sum_Fin: "np_sum (map Fin xs) = Fin (sum_list xs)"
  by (simp add: np_sum_def np_sum_Fin_aux)

lemma map2_same: "map2 f (map g xs) (map h xs) = map (\<lambda>x. f (g x) (h x)) xs"
  by (simp add: zip_map_map zip_same_conv_map)

lemma map2_multiply_Fin: "map2 np_multiply (map Fin u) (map Fin v) = map Fin (map2 (*) u v)"
  by (induction u v rule: list_induct2') simp_all

lemma np_dot_Fin: "np_dot (map Fin u) (map Fin v) = Fin (rdot u v)"
  by (simp only: np_dot_def map2_multiply_Fin np_sum_Fin rdot_def)

lemma rdot_map: "rdot (map f xs) (map g xs) = (\<Sum>x\<leftarrow>xs. f x * g x)"
  by (simp add: rdot_def zip_map_map zip_same_conv_map comp_def)

lemma isfinite_eq: "isfinite x \<longleftrightarrow> x = Fin (the_real x)"
  by (cases x) simp_all

lemma list_all_isfinite: "list_all isfinite xs \<Longrightarrow> map Fin (map the_real xs) = xs"
  by (induction xs) (simp_all add: isfinite_eq)

lemma list_all_list_all_isfinite:
  "list_all (list_all isfinite) rs \<Longrightarrow> map (map Fin) (map (map the_real) rs) = rs"
  by (induction rs) (simp_all add: list_all_isfinite del: map_map)

lemma cells_reals: "all_finite a \<Longrightarrow> map (map Fin) (reals a) = cells a"
  unfolding all_finite_def reals_def by (rule list_all_list_all_isfinite)

lemma length_reals: "is_ndarray2 a \<Longrightarrow> length (reals a) = shape0 a"
  by (simp add: is_ndarray2_def reals_def)

lemma np_transpose_Fin:
  assumes "is_ndarray2 a" "all_finite a"
  shows "np_transpose a = map (map Fin) (rcols (shape1 a) (reals a))"
proof -
  have len: "\<forall>r \<in> set (reals a). length r = shape1 a"
    using assms(1) by (auto simp: is_ndarray2_def reals_def list_all_iff)
  have "np_transpose a = map (\<lambda>j. map (\<lambda>r. r ! j) (map (map Fin) (reals a))) [0..<shape1 a]"
    by (simp only: np_transpose_def cells_reals [OF assms(2)])
  also have "\<dots> = map (\<lambda>j. map Fin (map (\<lambda>r. r ! j) (reals a))) [0..<shape1 a]"
    using len by (auto simp: comp_def)
  finally show ?thesis by (simp add: rcols_def comp_def)
qed

lemma np_mean_rows_Fin:
  "n \<noteq> 0 \<Longrightarrow> np_mean_rows n (map (map Fin) cs) = map Fin (map (\<lambda>c. sum_list c / real n) cs)"
  by (simp add: np_mean_rows_def np_sum_Fin comp_def)

lemma center_Fin:
  "map2 (\<lambda>v a. map (\<lambda>x. np_subtract x a) v) (map (map Fin) cs)
        (map Fin (map (\<lambda>c. sum_list c / real n) cs))
   = map (map Fin) (map (rcenter n) cs)"
  by (simp add: map2_same comp_def np_subtract_def rcenter_def)

subsection \<open>MaxLikelihoodEstimator on at least two finite rows\<close>

lemma np_cov_transposes_rows: "shape0 a \<noteq> 1 \<Longrightarrow> np_cov_transposes release a"
  by (cases release) (simp_all add: np_cov_transposes_def)

lemma np_cov_Fin:
  assumes "is_ndarray2 a" "all_finite a" "2 \<le> shape0 a"
  shows "np_cov_rowvar_false release a =
           np_squeeze2 (map (map Fin) (unbiased_sample_covariance (shape1 a) (reals a)))"
proof -
  have t: "np_cov_transposes release a"
    using assms(3) by (intro np_cov_transposes_rows) simp
  have c: "np_cov_rowvar_false release a
             = np_cov_of_variables (shape1 a) (shape0 a) (np_transpose a)"
    by (simp add: np_cov_rowvar_false_def t)
  show ?thesis
  proof (cases "shape1 a = 0")
    case True
    then show ?thesis
      by (simp add: c np_cov_of_variables_def unbiased_sample_covariance_def np_squeeze2_def)
  next
    case False
    define n where "n = shape0 a"
    define d where "d = shape1 a"
    define R where "R = reals a"
    define C where "C = map (rcenter n) (rcols d R)"
    have n: "n \<noteq> 0" "2 \<le> n" "length R = n"
      using assms by (simp_all add: n_def R_def length_reals)
    have fact: "(if int n - 1 \<le> 0 then Fin 0 else Fin (real_of_int (int n - 1))) = Fin (real n - 1)"
      using n by (simp add: of_nat_diff)
    have "np_cov_of_variables (shape1 a) (shape0 a) (np_transpose a) =
            np_squeeze2 (map (\<lambda>u. map (\<lambda>v. np_multiply (np_dot u v)
               (np_true_divide (Fin 1) (Fin (real n - 1)))) (map (map Fin) C)) (map (map Fin) C))"
      using False
      by (simp only: np_cov_of_variables_def Let_def np_transpose_Fin [OF assms(1,2)]
            n_def [symmetric] d_def [symmetric] R_def [symmetric]
            np_mean_rows_Fin [OF n(1)] center_Fin fact C_def [symmetric] if_False)
    also have "\<dots> = np_squeeze2 (map (map Fin) (map (\<lambda>u. map (\<lambda>v. rdot u v / (real n - 1)) C) C))"
      using n by (simp add: comp_def np_dot_Fin)
    also have "map (\<lambda>u. map (\<lambda>v. rdot u v / (real n - 1)) C) C = unbiased_sample_covariance d R"
      using n
      by (simp add: C_def rcols_def rcenter_def unbiased_sample_covariance_def average_of_rows_def
            comp_def rdot_map Let_def)
    finally show ?thesis by (simp only: c d_def R_def)
  qed
qed

lemma np_mean_axis0_Fin:
  assumes "is_ndarray2 a" "all_finite a" "1 \<le> shape0 a"
  shows "np_mean_axis0 a = map Fin (average_of_rows (shape1 a) (reals a))"
proof -
  have n: "shape0 a \<noteq> 0" using assms(3) by simp
  have "np_mean_axis0 a =
          map Fin (map (\<lambda>c. sum_list c / real (shape0 a)) (rcols (shape1 a) (reals a)))"
    by (simp only: np_mean_axis0_def np_transpose_Fin [OF assms(1,2)] np_mean_rows_Fin [OF n])
  then show ?thesis
    by (simp add: rcols_def average_of_rows_def comp_def length_reals [OF assms(1)])
qed

lemma mle_estimate_parameters_Fin:
  assumes "is_ndarray2 a" and "all_finite a" and "2 \<le> shape0 a"
  shows "mle_estimate_parameters release a =
           Inr (Arr1 (map Fin (average_of_rows (shape1 a) (reals a))),
                np_squeeze2 (map (map Fin) (unbiased_sample_covariance (shape1 a) (reals a))))"
  using assms by (simp add: mle_estimate_parameters_def np_cov_Fin np_mean_axis0_Fin)



subsection \<open>MaxLikelihoodEstimator on a single row\<close>

lemma np_add_zero_left: "np_add (Fin 0) x = x"
  by (cases x) simp_all

lemma np_true_divide_one: "np_true_divide x (Fin 1) = x"
  by (cases x) simp_all

lemma np_sum_single: "np_sum [x] = x"
  by (simp add: np_sum_def np_add_zero_left)

lemma np_subtract_self: "np_subtract x x = Fin 0 \<or> np_subtract x x = NaN"
  by (cases x) (simp_all add: np_subtract_def)

lemma single_row_entry:
  "np_multiply (np_dot [np_subtract x x] [np_subtract y y]) PInf = NaN"
  using np_subtract_self [of x] np_subtract_self [of y]
  by (auto simp: np_dot_def np_sum_single)

lemma single_row_cells:
  assumes "is_ndarray2 a" "shape0 a = 1"
  obtains r where "cells a = [r]" "length r = shape1 a"
  using assms by (cases "cells a") (auto simp: is_ndarray2_def)

text \<open>The single row transposed: every variable has one observation.\<close>

lemma np_cov_single_row:
  assumes "is_ndarray2 a" "shape0 a = 1"
  shows "np_cov_rowvar_false NumPy_from_2_2 a
           = np_squeeze2 (replicate (shape1 a) (replicate (shape1 a) NaN))"
proof -
  obtain r where r: "cells a = [r]" "length r = shape1 a"
    using assms by (rule single_row_cells)
  have c: "np_cov_rowvar_false NumPy_from_2_2 a
             = np_cov_of_variables (shape1 a) 1 (np_transpose a)"
    by (simp add: np_cov_rowvar_false_def np_cov_transposes_def assms(2))
  have X: "np_transpose a = map (\<lambda>j. [r ! j]) [0..<shape1 a]"
    by (simp add: np_transpose_def r)
  have avg: "np_mean_rows 1 (map (\<lambda>j. [r ! j]) [0..<shape1 a]) = map (\<lambda>j. r ! j) [0..<shape1 a]"
    by (simp add: np_mean_rows_def np_sum_single np_true_divide_one comp_def)
  have Xc: "map2 (\<lambda>v a. map (\<lambda>x. np_subtract x a) v) (map (\<lambda>j. [r ! j]) [0..<shape1 a])
              (map (\<lambda>j. r ! j) [0..<shape1 a])
            = map (\<lambda>j. [np_subtract (r ! j) (r ! j)]) [0..<shape1 a]"
    by (simp add: zip_map_map zip_same_conv_map comp_def)
  show ?thesis
  proof (cases "shape1 a = 0")
    case True
    then show ?thesis by (simp add: c np_cov_of_variables_def np_squeeze2_def)
  next
    case False
    have fact: "(if int 1 - 1 \<le> 0 then Fin 0 else Fin (real_of_int (int 1 - 1))) = Fin 0"
      by simp
    have "np_cov_of_variables (shape1 a) 1 (np_transpose a) =
            np_squeeze2 (map (\<lambda>u. map (\<lambda>v. np_multiply (np_dot u v) (np_true_divide (Fin 1) (Fin 0)))
               (map (\<lambda>j. [np_subtract (r ! j) (r ! j)]) [0..<shape1 a]))
               (map (\<lambda>j. [np_subtract (r ! j) (r ! j)]) [0..<shape1 a]))"
      using False by (simp only: np_cov_of_variables_def Let_def X avg Xc fact if_False)
    then show ?thesis
      by (simp add: c single_row_entry comp_def map_replicate_const)
  qed
qed

text \<open>
  The single row left as it is: one variable, whose observations are the entries of the
  row. The result is always 0-dimensional.
\<close>

lemma np_cov_single_row_untransposed:
  assumes "is_ndarray2 a" "shape0 a = 1"
  obtains r where "cells a = [r]" "length r = shape1 a"
    "np_cov_rowvar_false NumPy_before_2_2 a =
       Arr0 (np_multiply
               (np_dot (map (\<lambda>x. np_subtract x (np_true_divide (np_sum r) (Fin (real (shape1 a))))) r)
                       (map (\<lambda>x. np_subtract x (np_true_divide (np_sum r) (Fin (real (shape1 a))))) r))
               (np_true_divide (Fin 1)
                  (if int (shape1 a) - 1 \<le> 0 then Fin 0
                   else Fin (real_of_int (int (shape1 a) - 1)))))"
proof -
  obtain r where r: "cells a = [r]" "length r = shape1 a"
    using assms by (rule single_row_cells)
  have "np_cov_rowvar_false NumPy_before_2_2 a = np_cov_of_variables 1 (shape1 a) [r]"
    by (simp add: np_cov_rowvar_false_def np_cov_transposes_def assms(2) r(1))
  then have "np_cov_rowvar_false NumPy_before_2_2 a =
       Arr0 (np_multiply
               (np_dot (map (\<lambda>x. np_subtract x (np_true_divide (np_sum r) (Fin (real (shape1 a))))) r)
                       (map (\<lambda>x. np_subtract x (np_true_divide (np_sum r) (Fin (real (shape1 a))))) r))
               (np_true_divide (Fin 1)
                  (if int (shape1 a) - 1 \<le> 0 then Fin 0
                   else Fin (real_of_int (int (shape1 a) - 1)))))"
    by (simp add: np_cov_of_variables_def np_mean_rows_def np_squeeze2_def Let_def
          del: np_true_divide.simps)
  with r show ?thesis by (rule that)
qed

lemma np_cov_single_row_narrow:
  assumes "is_ndarray2 a" "shape0 a = 1" "shape1 a \<le> 1"
  shows "np_cov_rowvar_false NumPy_before_2_2 a = Arr0 NaN"
proof -
  obtain r where r: "cells a = [r]" "length r = shape1 a"
    and c: "np_cov_rowvar_false NumPy_before_2_2 a =
       Arr0 (np_multiply
               (np_dot (map (\<lambda>x. np_subtract x (np_true_divide (np_sum r) (Fin (real (shape1 a))))) r)
                       (map (\<lambda>x. np_subtract x (np_true_divide (np_sum r) (Fin (real (shape1 a))))) r))
               (np_true_divide (Fin 1)
                  (if int (shape1 a) - 1 \<le> 0 then Fin 0
                   else Fin (real_of_int (int (shape1 a) - 1)))))"
    using assms(1,2) by (rule np_cov_single_row_untransposed)
  consider "shape1 a = 0" | "shape1 a = 1" using assms(3) by linarith
  then show ?thesis
  proof cases
    case 1
    then have "r = []" using r(2) by simp
    then show ?thesis using 1 by (simp add: c np_dot_def np_sum_def)
  next
    case 2
    then obtain x where x: "r = [x]"
      using r(2) by (cases r) simp_all
    show ?thesis
      using 2 single_row_entry [of x x]
      by (simp add: c x np_sum_single np_true_divide_one)
  qed
qed

lemma np_cov_single_row_variance:
  assumes "is_ndarray2 a" "shape0 a = 1" "all_finite a" "2 \<le> shape1 a"
  shows "np_cov_rowvar_false NumPy_before_2_2 a
           = Arr0 (Fin (unbiased_variance (hd (reals a))))"
proof -
  obtain r where r: "cells a = [r]" "length r = shape1 a"
    and c: "np_cov_rowvar_false NumPy_before_2_2 a =
       Arr0 (np_multiply
               (np_dot (map (\<lambda>x. np_subtract x (np_true_divide (np_sum r) (Fin (real (shape1 a))))) r)
                       (map (\<lambda>x. np_subtract x (np_true_divide (np_sum r) (Fin (real (shape1 a))))) r))
               (np_true_divide (Fin 1)
                  (if int (shape1 a) - 1 \<le> 0 then Fin 0
                   else Fin (real_of_int (int (shape1 a) - 1)))))"
    using assms(1,2) by (rule np_cov_single_row_untransposed)
  define q where "q = map the_real r"
  define d where "d = shape1 a"
  have fin: "list_all isfinite r"
    using assms(3) by (simp add: all_finite_def r(1))
  have rq: "r = map Fin q"
    using list_all_isfinite [OF fin] by (simp add: q_def)
  have hq: "hd (reals a) = q"
    by (simp add: reals_def r(1) q_def)
  have d: "2 \<le> d" "length q = d" "d \<noteq> 0"
    using assms(4) r(2) by (simp_all add: d_def q_def)
  have fact: "(if int d - 1 \<le> 0 then Fin 0 else Fin (real_of_int (int d - 1))) = Fin (real d - 1)"
    using d(1) by (simp add: of_nat_diff)
  have cen: "map (\<lambda>x. np_subtract x (np_true_divide (np_sum (map Fin q)) (Fin (real d)))) (map Fin q)
               = map Fin (rcenter d q)"
    using d(3) by (simp add: np_sum_Fin np_subtract_def rcenter_def comp_def)
  have "np_cov_rowvar_false NumPy_before_2_2 a
          = Arr0 (np_multiply (np_dot (map Fin (rcenter d q)) (map Fin (rcenter d q)))
                    (np_true_divide (Fin 1) (Fin (real d - 1))))"
    by (simp only: c rq d_def [symmetric] fact cen)
  also have "\<dots> = Arr0 (Fin (rdot (rcenter d q) (rcenter d q) / (real d - 1)))"
    using d(1) by (simp add: np_dot_Fin)
  also have "rdot (rcenter d q) (rcenter d q) / (real d - 1) = unbiased_variance q"
    by (simp add: rcenter_def rdot_map unbiased_variance_def d(2) Let_def)
  finally show ?thesis by (simp only: hq)
qed

lemma np_mean_single_row:
  assumes "is_ndarray2 a" "shape0 a = 1"
  shows "np_mean_axis0 a = hd (cells a)"
proof -
  obtain r where r: "cells a = [r]" "length r = shape1 a"
    using assms by (rule single_row_cells)
  have "np_mean_axis0 a = map (\<lambda>j. r ! j) [0..<length r]"
    by (simp add: np_mean_axis0_def np_transpose_def np_mean_rows_def r assms(2) np_sum_single
          np_true_divide_one comp_def)
  then show ?thesis by (simp only: r(1) map_nth list.sel)
qed

text \<open>
  C3, as the code has it. For an array of a single row, MaxLikelihoodEstimator.estimate_parameters
  raises no error and returns the row itself as the mean; the covariance depends on the
  release of NumPy, and is the zero matrix of the dimension of the row on neither.

    \<^item> From NumPy 2.2 on, the covariance has the dimension of the row and all its entries
      are \<open>nan\<close>, whatever the entries of the row: the centred data are zero (or \<open>nan\<close>)
      and are multiplied by \<open>1 / 0 = inf\<close>, since the divisor \<open>n - 1\<close> is zero.
    \<^item> Before NumPy 2.2, the covariance is a 0-dimensional array, whatever the width of
      the row: \<open>nan\<close> for a row of at most one entry, and for a row of at least two finite
      entries the unbiased variance of these entries.
\<close>

theorem mle_single_row:
  assumes "is_ndarray2 a" and "shape0 a = 1"
  shows "mle_estimate_parameters NumPy_from_2_2 a =
           Inr (Arr1 (hd (cells a)),
                np_squeeze2 (replicate (shape1 a) (replicate (shape1 a) NaN)))
         \<and> (\<exists>x. mle_estimate_parameters NumPy_before_2_2 a = Inr (Arr1 (hd (cells a)), Arr0 x))
         \<and> (shape1 a \<le> 1 \<longrightarrow>
              mle_estimate_parameters NumPy_before_2_2 a = Inr (Arr1 (hd (cells a)), Arr0 NaN))
         \<and> (all_finite a \<and> 2 \<le> shape1 a \<longrightarrow>
              mle_estimate_parameters NumPy_before_2_2 a =
                Inr (Arr1 (hd (cells a)), Arr0 (Fin (unbiased_variance (hd (reals a))))))"
proof (intro conjI impI)
  show "mle_estimate_parameters NumPy_from_2_2 a =
           Inr (Arr1 (hd (cells a)),
                np_squeeze2 (replicate (shape1 a) (replicate (shape1 a) NaN)))"
    using assms by (simp add: mle_estimate_parameters_def np_mean_single_row np_cov_single_row)
  show "\<exists>x. mle_estimate_parameters NumPy_before_2_2 a = Inr (Arr1 (hd (cells a)), Arr0 x)"
    using assms np_cov_single_row_untransposed [OF assms]
    by (metis mle_estimate_parameters_def np_mean_single_row)
  show "mle_estimate_parameters NumPy_before_2_2 a = Inr (Arr1 (hd (cells a)), Arr0 NaN)"
    if "shape1 a \<le> 1"
    using assms that
    by (simp add: mle_estimate_parameters_def np_mean_single_row np_cov_single_row_narrow)
  show "mle_estimate_parameters NumPy_before_2_2 a =
          Inr (Arr1 (hd (cells a)), Arr0 (Fin (unbiased_variance (hd (reals a)))))"
    if "all_finite a \<and> 2 \<le> shape1 a"
    using assms that
    by (simp add: mle_estimate_parameters_def np_mean_single_row np_cov_single_row_variance)
qed

theorem mle_single_row_witness:
  "is_ndarray2 single_row_4 \<and> shape0 single_row_4 = 1
   \<and> all_finite single_row_4 \<and> 2 \<le> shape1 single_row_4
   \<and> unbiased_variance [1, 2, 3, 4] = 5 / 3
   \<and> mle_estimate_parameters NumPy_from_2_2 single_row_4 =
       Inr (Arr1 [Fin 1, Fin 2, Fin 3, Fin 4],
            Arr2 [[NaN, NaN, NaN, NaN], [NaN, NaN, NaN, NaN],
                  [NaN, NaN, NaN, NaN], [NaN, NaN, NaN, NaN]])
   \<and> mle_estimate_parameters NumPy_before_2_2 single_row_4 =
       Inr (Arr1 [Fin 1, Fin 2, Fin 3, Fin 4], Arr0 (Fin (5 / 3)))
   \<and> is_ndarray2 single_entry \<and> shape0 single_entry = 1 \<and> shape1 single_entry \<le> 1
   \<and> mle_estimate_parameters NumPy_from_2_2 single_entry = Inr (Arr1 [Fin 5], Arr0 NaN)
   \<and> mle_estimate_parameters NumPy_before_2_2 single_entry = Inr (Arr1 [Fin 5], Arr0 NaN)"
proof -
  have v: "unbiased_variance [1, 2, 3, 4] = 5 / 3"
    by (simp add: unbiased_variance_def)
  have h4: "is_ndarray2 single_row_4" "shape0 single_row_4 = 1" "all_finite single_row_4"
    "2 \<le> shape1 single_row_4" "shape1 single_row_4 = 4"
    "cells single_row_4 = [[Fin 1, Fin 2, Fin 3, Fin 4]]" "reals single_row_4 = [[1, 2, 3, 4]]"
    by (simp_all add: single_row_4_def is_ndarray2_def all_finite_def reals_def)
  have h1: "is_ndarray2 single_entry" "shape0 single_entry = 1" "shape1 single_entry \<le> 1"
    "shape1 single_entry = 1" "cells single_entry = [[Fin 5]]"
    by (simp_all add: single_entry_def is_ndarray2_def)
  show ?thesis
    using mle_single_row [OF h4(1,2)] mle_single_row [OF h1(1,2)] h4(1-4) h1(1-3)
    by (simp add: h4(5-7) h1(4,5) v np_squeeze2_def numeral_eq_Suc)
qed

text \<open>
  The claim as the specification states it fails on one sample of dimension 4, on either
  release of NumPy: the covariance is not the 4 x 4 zero matrix.
\<close>

theorem mle_single_row_not_zero_counterexample:
  "is_ndarray2 single_row_4 \<and> all_finite single_row_4 \<and> shape0 single_row_4 = 1
   \<and> mle_estimate_parameters NumPy_from_2_2 single_row_4 =
       Inr (Arr1 [Fin 1, Fin 2, Fin 3, Fin 4],
            Arr2 [[NaN, NaN, NaN, NaN], [NaN, NaN, NaN, NaN],
                  [NaN, NaN, NaN, NaN], [NaN, NaN, NaN, NaN]])
   \<and> mle_estimate_parameters NumPy_before_2_2 single_row_4 =
       Inr (Arr1 [Fin 1, Fin 2, Fin 3, Fin 4], Arr0 (Fin (5 / 3)))
   \<and> np_cov_rowvar_false NumPy_from_2_2 single_row_4 \<noteq> Arr2 (replicate 4 (replicate 4 (Fin 0)))
   \<and> np_cov_rowvar_false NumPy_before_2_2 single_row_4 \<noteq> Arr2 (replicate 4 (replicate 4 (Fin 0)))"
  by code_simp

section \<open>Validation and state\<close>

lemma np_add_NaN_right: "np_add x NaN = NaN"
  by (cases x) simp_all

lemma foldl_np_add_NaN: "foldl np_add NaN xs = NaN"
  by (induction xs) (simp_all add: np_add_NaN_right)

lemma foldl_np_add_has_NaN: "NaN \<in> set xs \<Longrightarrow> foldl np_add a xs = NaN"
  by (induction xs arbitrary: a) (auto simp: np_add_NaN_right foldl_np_add_NaN)

lemma np_sum_has_NaN: "NaN \<in> set xs \<Longrightarrow> np_sum xs = NaN"
  by (simp add: np_sum_def foldl_np_add_has_NaN)

lemma mle_nan_mean:
  assumes "is_ndarray2 X" "i < shape0 X" "j < shape1 X" "cells X ! i ! j = NaN"
  shows "np_mean_axis0 X ! j = NaN"
proof -
  have "NaN \<in> set (map (\<lambda>r. r ! j) (cells X))"
    using assms by (force simp: is_ndarray2_def in_set_conv_nth)
  then show ?thesis
    using assms(3) by (simp add: np_mean_axis0_def np_mean_rows_def np_transpose_def np_sum_has_NaN)
qed

text \<open>
  The claim C2 as the specification states it fails: MaxLikelihoodEstimator accepts a matrix
  with a \<open>nan\<close> entry and returns a mean and a covariance that contain \<open>nan\<close>.
\<close>

theorem mle_accepts_nan_counterexample:
  "\<not> all_finite nan_features
   \<and> mle_estimate_parameters NumPy_before_2_2 nan_features =
       Inr (Arr1 [NaN, Fin 2], Arr2 [[NaN, NaN], [NaN, Fin 2]])
   \<and> mle_estimate_parameters NumPy_from_2_2 nan_features =
       Inr (Arr1 [NaN, Fin 2], Arr2 [[NaN, NaN], [NaN, Fin 2]])"
  by code_simp

text \<open>
  C2, as the code has it. The repository defines no InvalidInputError and validates nothing
  itself. LeoditWolfEstimator.estimate_parameters fails with scikit-learn's ValueError when
  the features matrix has a non-finite entry, no rows or no columns, and it fails before
  anything is estimated: the estimator is left as it was. MaxLikelihoodEstimator never
  fails; a \<open>nan\<close> entry makes the mean of its column \<open>nan\<close>. (Rows of different lengths do
  not exist in a two-dimensional array.)
\<close>

theorem estimators_input_validation:
  "(1 \<le> block_size (model self) \<and> \<not> all_finite X \<longrightarrow>
      lw_estimate_parameters self X = (Inl ValueError_not_finite, self))
   \<and> (1 \<le> block_size (model self) \<and> all_finite X \<and> shape0 X = 0 \<longrightarrow>
      lw_estimate_parameters self X = (Inl ValueError_no_samples, self))
   \<and> (1 \<le> block_size (model self) \<and> all_finite X \<and> 0 < shape0 X \<and> shape1 X = 0 \<longrightarrow>
      lw_estimate_parameters self X = (Inl ValueError_no_features, self))
   \<and> (\<exists>mean cov. mle_estimate_parameters release X = Inr (Arr1 mean, cov)
        \<and> (\<forall>i j. is_ndarray2 X \<and> i < shape0 X \<and> j < shape1 X \<and> cells X ! i ! j = NaN
              \<longrightarrow> mean ! j = NaN))"
  by (auto simp: lw_estimate_parameters_def LedoitWolf_fit_def check_array_def
        mle_estimate_parameters_def mle_nan_mean)

theorem estimators_input_validation_witness:
  "1 \<le> block_size (model (LeoditWolfEstimator_init None)) \<and> \<not> all_finite nan_features
   \<and> lw_estimate_parameters (LeoditWolfEstimator_init None) nan_features
       = (Inl ValueError_not_finite, LeoditWolfEstimator_init None)
   \<and> all_finite no_rows_3 \<and> shape0 no_rows_3 = 0
   \<and> lw_estimate_parameters (LeoditWolfEstimator_init None) no_rows_3
       = (Inl ValueError_no_samples, LeoditWolfEstimator_init None)
   \<and> all_finite no_columns_2 \<and> 0 < shape0 no_columns_2 \<and> shape1 no_columns_2 = 0
   \<and> lw_estimate_parameters (LeoditWolfEstimator_init None) no_columns_2
       = (Inl ValueError_no_features, LeoditWolfEstimator_init None)
   \<and> is_ndarray2 nan_features \<and> (0::nat) < shape0 nan_features \<and> (0::nat) < shape1 nan_features
   \<and> cells nan_features ! 0 ! 0 = NaN
   \<and> (\<exists>mean cov. mle_estimate_parameters NumPy_before_2_2 nan_features = Inr (Arr1 mean, cov)
          \<and> mean ! 0 = NaN)
   \<and> (\<exists>mean cov. mle_estimate_parameters NumPy_from_2_2 nan_features = Inr (Arr1 mean, cov)
          \<and> mean ! 0 = NaN)"
proof -
  have b: "1 \<le> block_size (model (LeoditWolfEstimator_init None))"
    by (simp add: LeoditWolfEstimator_init_def LedoitWolf_init_def)
  have n: "\<not> all_finite nan_features" "is_ndarray2 nan_features" "0 < shape0 nan_features"
    "0 < shape1 nan_features" "cells nan_features ! 0 ! 0 = NaN"
    by (simp_all add: nan_features_def all_finite_def is_ndarray2_def)
  have r: "all_finite no_rows_3" "shape0 no_rows_3 = 0"
    by (simp_all add: no_rows_3_def all_finite_def)
  have c: "all_finite no_columns_2" "0 < shape0 no_columns_2" "shape1 no_columns_2 = 0"
    by (simp_all add: no_columns_2_def all_finite_def)
  have 1: "lw_estimate_parameters (LeoditWolfEstimator_init None) nan_features
             = (Inl ValueError_not_finite, LeoditWolfEstimator_init None)"
    using estimators_input_validation
            [where self = "LeoditWolfEstimator_init None" and X = nan_features
               and release = NumPy_from_2_2] b n(1)
    by blast
  have 2: "lw_estimate_parameters (LeoditWolfEstimator_init None) no_rows_3
             = (Inl ValueError_no_samples, LeoditWolfEstimator_init None)"
    using estimators_input_validation
            [where self = "LeoditWolfEstimator_init None" and X = no_rows_3
               and release = NumPy_from_2_2] b r
    by blast
  have 3: "lw_estimate_parameters (LeoditWolfEstimator_init None) no_columns_2
             = (Inl ValueError_no_features, LeoditWolfEstimator_init None)"
    using estimators_input_validation
            [where self = "LeoditWolfEstimator_init None" and X = no_columns_2
               and release = NumPy_from_2_2] b c
    by blast
  have 4: "\<exists>mean cov. mle_estimate_parameters release nan_features = Inr (Arr1 mean, cov)
             \<and> mean ! 0 = NaN" for release
    using estimators_input_validation
            [where self = "LeoditWolfEstimator_init None" and X = nan_features
               and release = release] n(2-5)
    by blast
  show ?thesis
    using b n r c 1 2 3 4 [of NumPy_before_2_2] 4 [of NumPy_from_2_2]
    by (intro conjI) assumption+
qed

lemma lw_sets_location:
  assumes "1 \<le> block_size (model self)" "\<not> assume_centered (model self)"
    "all_finite X" "0 < shape0 X" "0 < shape1 X"
  shows "location (model (snd (lw_estimate_parameters self X))) = Some (np_mean_axis0 X)"
  using assms
  by (auto simp: lw_estimate_parameters_def LedoitWolf_fit_def check_array_def Let_def
        split: sum.splits option.splits)

text \<open>
  The claim C4 as the specification states it fails for the shrinkage estimator: a call
  changes the estimator, whose model now holds the fitted mean.
\<close>

theorem lw_changes_estimator_counterexample:
  "location (model (LeoditWolfEstimator_init None)) = None
   \<and> location (model (snd (lw_estimate_parameters (LeoditWolfEstimator_init None) m32)))
       = Some [Fin 4, Fin (20 / 3)]"
proof -
  have "np_mean_axis0 m32 = [Fin 4, Fin (20 / 3)]"
    by code_simp
  moreover have "location (model (snd (lw_estimate_parameters (LeoditWolfEstimator_init None) m32)))
                   = Some (np_mean_axis0 m32)"
    by (rule lw_sets_location)
       (simp_all add: LeoditWolfEstimator_init_def LedoitWolf_init_def m32_def all_finite_def)
  ultimately show ?thesis
    by (simp add: LeoditWolfEstimator_init_def LedoitWolf_init_def)
qed

text \<open>
  C4, as the code has it. MaxLikelihoodEstimator.estimate_parameters is a function of the
  features alone (the object has no state). LeoditWolfEstimator.estimate_parameters
  overwrites the fitted attributes of its model, but never reads them: what it returns
  depends only on the features and on the two constructor parameters, and a second call
  with the same features returns the same result and leaves the estimator as the first call
  left it.
\<close>

theorem lw_result_independent_of_fitted_state:
  "(assume_centered (model s1) = assume_centered (model s2)
      \<and> block_size (model s1) = block_size (model s2) \<longrightarrow>
      fst (lw_estimate_parameters s1 X) = fst (lw_estimate_parameters s2 X))
   \<and> lw_estimate_parameters (snd (lw_estimate_parameters s1 X)) X = lw_estimate_parameters s1 X"
  by (auto simp: lw_estimate_parameters_def LedoitWolf_fit_def Let_def
        split: sum.splits prod.splits option.splits)

lemma lw_keeps_parameters:
  "assume_centered (model (snd (lw_estimate_parameters s X))) = assume_centered (model s)
   \<and> block_size (model (snd (lw_estimate_parameters s X))) = block_size (model s)"
  by (auto simp: lw_estimate_parameters_def LedoitWolf_fit_def Let_def
        split: sum.splits prod.splits option.splits)

theorem lw_result_independent_of_fitted_state_witness:
  "assume_centered (model (LeoditWolfEstimator_init None))
     = assume_centered (model (snd (lw_estimate_parameters (LeoditWolfEstimator_init None) single_row_4)))
   \<and> block_size (model (LeoditWolfEstimator_init None))
     = block_size (model (snd (lw_estimate_parameters (LeoditWolfEstimator_init None) single_row_4)))
   \<and> location (model (snd (lw_estimate_parameters (LeoditWolfEstimator_init None) single_row_4)))
       \<noteq> location (model (LeoditWolfEstimator_init None))
   \<and> fst (lw_estimate_parameters (LeoditWolfEstimator_init None) m32)
       = fst (lw_estimate_parameters
                (snd (lw_estimate_parameters (LeoditWolfEstimator_init None) single_row_4)) m32)"
proof -
  have "location (model (snd (lw_estimate_parameters (LeoditWolfEstimator_init None) single_row_4)))
          = Some (np_mean_axis0 single_row_4)"
    by (rule lw_sets_location)
       (simp_all add: LeoditWolfEstimator_init_def LedoitWolf_init_def single_row_4_def
          all_finite_def)
  then have "location (model (snd (lw_estimate_parameters (LeoditWolfEstimator_init None) single_row_4)))
          \<noteq> location (model (LeoditWolfEstimator_init None))"
    by (simp add: LeoditWolfEstimator_init_def LedoitWolf_init_def)
  then show ?thesis
    using lw_result_independent_of_fitted_state
            [of "LeoditWolfEstimator_init None"
                "snd (lw_estimate_parameters (LeoditWolfEstimator_init None) single_row_4)" m32]
          lw_keeps_parameters [of "LeoditWolfEstimator_init None" single_row_4]
    by simp
qed

section \<open>The shrinkage estimator on valid data\<close>

lemma concat_map_map_Fin:
  "concat (map (\<lambda>u. map (\<lambda>v. Fin (f u v)) B) A) = map Fin (concat (map (\<lambda>u. map (f u) B) A))"
  by (induction A) simp_all

lemma sum_list_concat_map: "sum_list (concat (map (\<lambda>u. map (f u) B) A)) = pair_sum f A B"
  by (induction A) (simp_all add: pair_sum_def)

lemma sum_dot_Fin: "sum_dot (map (map Fin) A) (map (map Fin) B) = Fin (pair_sum rdot A B)"
proof -
  have "concat (map (\<lambda>u. map (\<lambda>v. np_dot u v) (map (map Fin) B)) (map (map Fin) A))
          = concat (map (\<lambda>u. map (\<lambda>v. Fin (rdot u v)) B) A)"
    by (simp add: comp_def np_dot_Fin)
  then show ?thesis
    by (simp only: sum_dot_def concat_map_map_Fin np_sum_Fin sum_list_concat_map)
qed

lemma sum_dot_sq_Fin:
  "sum_dot_sq (map (map Fin) A) (map (map Fin) B) = Fin (pair_sum (\<lambda>u v. (rdot u v)\<^sup>2) A B)"
proof -
  have "concat (map (\<lambda>u. map (\<lambda>v. np_square (np_dot u v)) (map (map Fin) B)) (map (map Fin) A))
          = concat (map (\<lambda>u. map (\<lambda>v. Fin ((rdot u v)\<^sup>2)) B) A)"
    by (simp add: comp_def np_dot_Fin np_square_def power2_eq_square)
  then show ?thesis
    by (simp only: sum_dot_sq_def concat_map_map_Fin np_sum_Fin sum_list_concat_map)
qed

lemma lw_accumulate_Fin:
  "lw_accumulate (map (map Fin) A2) (map (map Fin) B2) (map (map Fin) A) (map (map Fin) B)
     (Fin x, Fin y)
   = (Fin (x + pair_sum rdot A2 B2), Fin (y + pair_sum (\<lambda>u v. (rdot u v)\<^sup>2) A B))"
  by (simp add: lw_accumulate_def sum_dot_Fin sum_dot_sq_Fin)

lemma blk_map: "blk b i (map f xs) = map f (blk b i xs)"
  by (simp add: blk_def take_map drop_map)

lemma pair_sum_Nil_left [simp]: "pair_sum f [] B = 0"
  by (simp add: pair_sum_def)

lemma pair_sum_append_left: "pair_sum f (A @ A') B = pair_sum f A B + pair_sum f A' B"
  by (simp add: pair_sum_def)

lemma pair_sum_append_right: "pair_sum f A (B @ B') = pair_sum f A B + pair_sum f A B'"
  by (simp add: pair_sum_def sum_list_addf)

lemma pair_sum_concat_left: "pair_sum f (concat As) B = (\<Sum>A\<leftarrow>As. pair_sum f A B)"
  by (induction As) (simp_all add: pair_sum_append_left)

lemma pair_sum_concat_right: "pair_sum f A (concat Bs) = (\<Sum>B\<leftarrow>Bs. pair_sum f A B)"
  by (induction Bs) (simp_all add: pair_sum_def sum_list_addf)

lemma concat_blocks: "concat (map (\<lambda>i. blk b i xs) [0..<k]) = take (b * k) xs"
proof (induction k)
  case 0
  then show ?case by simp
next
  case (Suc k)
  have "take (b * k + b) xs = take (b * k) xs @ take b (drop (b * k) xs)"
    by (rule take_add)
  moreover have "b * Suc k = b * k + b"
    by simp
  moreover have "concat (map (\<lambda>i. blk b i xs) [0..<Suc k])
                   = concat (map (\<lambda>i. blk b i xs) [0..<k]) @ blk b k xs"
    by simp
  ultimately show ?case
    by (simp only: Suc.IH) (simp only: blk_def)
qed

lemma blocks_partition: "concat (map (\<lambda>i. blk b i xs) [0..<k]) @ drop (b * k) xs = xs"
  by (simp add: concat_blocks)

lemma pair_sum_blocks:
  "(\<Sum>i\<leftarrow>[0..<k]. (\<Sum>j\<leftarrow>[0..<k]. pair_sum f (blk b i xs) (blk b j xs))
        + pair_sum f (blk b i xs) (drop (b * k) xs))
   + (\<Sum>j\<leftarrow>[0..<k]. pair_sum f (drop (b * k) xs) (blk b j xs))
   + pair_sum f (drop (b * k) xs) (drop (b * k) xs)
   = pair_sum f xs xs"
proof -
  have right: "pair_sum f A xs
      = (\<Sum>j\<leftarrow>[0..<k]. pair_sum f A (blk b j xs)) + pair_sum f A (drop (b * k) xs)" for A
  proof -
    have "pair_sum f A xs = pair_sum f A (concat (map (\<lambda>i. blk b i xs) [0..<k]) @ drop (b * k) xs)"
      by (simp only: blocks_partition)
    then show ?thesis
      by (simp only: pair_sum_append_right pair_sum_concat_right map_map comp_def)
  qed
  have "pair_sum f xs xs = pair_sum f (concat (map (\<lambda>i. blk b i xs) [0..<k]) @ drop (b * k) xs) xs"
    by (simp only: blocks_partition)
  also have "\<dots> = (\<Sum>i\<leftarrow>[0..<k]. pair_sum f (blk b i xs) xs) + pair_sum f (drop (b * k) xs) xs"
    by (simp only: pair_sum_append_left pair_sum_concat_left map_map comp_def)
  also have "(\<Sum>i\<leftarrow>[0..<k]. pair_sum f (blk b i xs) xs)
      = (\<Sum>i\<leftarrow>[0..<k]. (\<Sum>j\<leftarrow>[0..<k]. pair_sum f (blk b i xs) (blk b j xs))
            + pair_sum f (blk b i xs) (drop (b * k) xs))"
    by (subst right) (rule refl)
  also have "pair_sum f (drop (b * k) xs) xs
      = (\<Sum>j\<leftarrow>[0..<k]. pair_sum f (drop (b * k) xs) (blk b j xs))
          + pair_sum f (drop (b * k) xs) (drop (b * k) xs)"
    by (rule right)
  finally show ?thesis by (simp add: add.assoc)
qed

lemma inner_loop_Fin:
  "foldl (\<lambda>acc j. lw_accumulate (map (map Fin) A2) (blk b j (map (map Fin) C2))
                    (map (map Fin) A) (blk b j (map (map Fin) C)) acc) (Fin x, Fin y) js
   = (Fin (x + (\<Sum>j\<leftarrow>js. pair_sum rdot A2 (blk b j C2))),
      Fin (y + (\<Sum>j\<leftarrow>js. pair_sum (\<lambda>u v. (rdot u v)\<^sup>2) A (blk b j C))))"
  by (induction js arbitrary: x y) (simp_all add: blk_map lw_accumulate_Fin add.assoc)

lemma outer_loop_Fin:
  "foldl (\<lambda>acc i.
            lw_accumulate (blk b i (map (map Fin) C2)) (map (map Fin) T2)
              (blk b i (map (map Fin) C)) (map (map Fin) T)
              (foldl (\<lambda>acc j.
                        lw_accumulate (blk b i (map (map Fin) C2)) (blk b j (map (map Fin) C2))
                          (blk b i (map (map Fin) C)) (blk b j (map (map Fin) C)) acc)
                 acc js))
         (Fin x, Fin y) is
   = (Fin (x + (\<Sum>i\<leftarrow>is. (\<Sum>j\<leftarrow>js. pair_sum rdot (blk b i C2) (blk b j C2))
                            + pair_sum rdot (blk b i C2) T2)),
      Fin (y + (\<Sum>i\<leftarrow>is. (\<Sum>j\<leftarrow>js. pair_sum (\<lambda>u v. (rdot u v)\<^sup>2) (blk b i C) (blk b j C))
                            + pair_sum (\<lambda>u v. (rdot u v)\<^sup>2) (blk b i C) T)))"
proof (induction "is" arbitrary: x y)
  case Nil
  then show ?case by simp
next
  case (Cons i "is")
  show ?case
    by (simp only: foldl_Cons blk_map [of b i] inner_loop_Fin lw_accumulate_Fin Cons.IH
          list.map sum_list.Cons add.assoc)
qed

lemma lw_block_sums_Fin:
  "lw_block_sums b k n (map (map Fin) C) (map (map Fin) C2)
   = (Fin (pair_sum rdot C2 C2),
      np_true_divide (Fin (pair_sum (\<lambda>u v. (rdot u v)\<^sup>2) C C)) (Fin (real (n ^ 2))))"
proof -
  have "lw_block_sums b k n (map (map Fin) C) (map (map Fin) C2)
    = (Fin ((\<Sum>i\<leftarrow>[0..<k]. (\<Sum>j\<leftarrow>[0..<k]. pair_sum rdot (blk b i C2) (blk b j C2))
                + pair_sum rdot (blk b i C2) (drop (b * k) C2))
             + (\<Sum>j\<leftarrow>[0..<k]. pair_sum rdot (drop (b * k) C2) (blk b j C2))
             + pair_sum rdot (drop (b * k) C2) (drop (b * k) C2)),
       np_true_divide
         (Fin ((\<Sum>i\<leftarrow>[0..<k]. (\<Sum>j\<leftarrow>[0..<k]. pair_sum (\<lambda>u v. (rdot u v)\<^sup>2) (blk b i C) (blk b j C))
                + pair_sum (\<lambda>u v. (rdot u v)\<^sup>2) (blk b i C) (drop (b * k) C))
             + (\<Sum>j\<leftarrow>[0..<k]. pair_sum (\<lambda>u v. (rdot u v)\<^sup>2) (drop (b * k) C) (blk b j C))
             + pair_sum (\<lambda>u v. (rdot u v)\<^sup>2) (drop (b * k) C) (drop (b * k) C)))
         (Fin (real (n ^ 2))))"
    by (simp add: lw_block_sums_def Let_def drop_map outer_loop_Fin inner_loop_Fin
          lw_accumulate_Fin sum_dot_Fin sum_dot_sq_Fin del: np_true_divide.simps)
  then show ?thesis by (simp only: pair_sum_blocks)
qed

lemma sum_list_power2_le:
  fixes ws :: "real list"
  shows "(sum_list ws)\<^sup>2 \<le> real (length ws) * (\<Sum>w\<leftarrow>ws. w\<^sup>2)"
proof (induction ws)
  case Nil
  then show ?case by simp
next
  case (Cons w ws)
  define n where "n = real (length ws)"
  define S where "S = sum_list ws"
  define Q where "Q = (\<Sum>w\<leftarrow>ws. w\<^sup>2)"
  have IH: "S\<^sup>2 \<le> n * Q"
    using Cons.IH by (simp add: n_def S_def Q_def)
  have Q: "0 \<le> Q"
    unfolding Q_def by (rule sum_list_nonneg) auto
  have n: "0 \<le> n" by (simp add: n_def)
  have cross: "2 * w * S \<le> n * w\<^sup>2 + Q"
  proof (cases "n = 0")
    case True
    then have "ws = []" by (simp add: n_def)
    then show ?thesis by (simp add: S_def Q_def n_def)
  next
    case False
    with n have pos: "0 < n" by simp
    have "0 \<le> (n * w - S)\<^sup>2" by simp
    then have "2 * (n * w * S) \<le> n\<^sup>2 * w\<^sup>2 + S\<^sup>2"
      by (simp add: power2_diff power_mult_distrib)
    with IH have "n * (2 * w * S) \<le> n * (n * w\<^sup>2 + Q)"
      by (simp add: algebra_simps power2_eq_square)
    with pos show ?thesis by (simp only: mult_le_cancel_left_pos)
  qed
  have "(w + S)\<^sup>2 = w\<^sup>2 + 2 * w * S + S\<^sup>2"
    by (simp add: power2_sum)
  also have "\<dots> \<le> w\<^sup>2 + (n * w\<^sup>2 + Q) + n * Q"
    using cross IH by simp
  also have "\<dots> = (n + 1) * (w\<^sup>2 + Q)"
    by (simp add: algebra_simps)
  finally show ?case
    by (simp add: n_def S_def Q_def add.commute)
qed

lemma pair_sum_mono:
  "(\<And>u v. u \<in> set A \<Longrightarrow> v \<in> set B \<Longrightarrow> f u v \<le> g u v) \<Longrightarrow> pair_sum f A B \<le> pair_sum g A B"
  unfolding pair_sum_def by (intro sum_list_mono) auto

lemma pair_sum_nonneg:
  "(\<And>u v. 0 \<le> f u v) \<Longrightarrow> 0 \<le> pair_sum f A B"
  unfolding pair_sum_def by (auto intro!: sum_list_nonneg)

lemma pair_sum_Cons_Cons:
  "pair_sum f (a # A) (a # A)
     = f a a + (\<Sum>v\<leftarrow>A. f a v) + (\<Sum>u\<leftarrow>A. f u a) + pair_sum f A A"
  by (simp add: pair_sum_def sum_list_addf)

lemma diag_le_pair_sum:
  assumes "\<And>u v. 0 \<le> f u v"
  shows "(\<Sum>u\<leftarrow>A. f u u) \<le> pair_sum f A A"
proof (induction A)
  case Nil
  then show ?case by simp
next
  case (Cons a A)
  have "0 \<le> (\<Sum>v\<leftarrow>A. f a v)" "0 \<le> (\<Sum>u\<leftarrow>A. f u a)"
    using assms by (auto intro!: sum_list_nonneg)
  with Cons.IH show ?case
    by (simp add: pair_sum_Cons_Cons)
qed

lemma rdot_squares:
  "rdot (map (\<lambda>x. x * x) u) (map (\<lambda>x. x * x) v) = (\<Sum>w\<leftarrow>map2 (*) u v. w\<^sup>2)"
  by (induction u v rule: list_induct2') (simp_all add: rdot_def power2_eq_square)

lemma rdot_power2_le:
  assumes "length u = n" "length v = n"
  shows "(rdot u v)\<^sup>2 \<le> real n * rdot (map (\<lambda>x. x * x) u) (map (\<lambda>x. x * x) v)"
proof -
  have "(sum_list (map2 (*) u v))\<^sup>2 \<le> real (length (map2 (*) u v)) * (\<Sum>w\<leftarrow>map2 (*) u v. w\<^sup>2)"
    by (rule sum_list_power2_le)
  then show ?thesis
    using assms by (simp add: rdot_def rdot_squares [unfolded rdot_def])
qed

lemma pair_sum_const_mult: "pair_sum (\<lambda>u v. c * f u v) A B = c * pair_sum f A B"
  by (simp add: pair_sum_def sum_list_const_mult)

lemma pair_sum_map: "pair_sum f (map g A) (map h B) = pair_sum (\<lambda>u v. f (g u) (h v)) A B"
  by (simp add: pair_sum_def comp_def)

lemma pair_sum_sq_le:
  assumes "\<And>c. c \<in> set C \<Longrightarrow> length c = n"
  shows "pair_sum (\<lambda>u v. (rdot u v)\<^sup>2) C C
           \<le> real n * pair_sum rdot (map (map (\<lambda>x. x * x)) C) (map (map (\<lambda>x. x * x)) C)"
proof -
  have "pair_sum (\<lambda>u v. (rdot u v)\<^sup>2) C C
          \<le> pair_sum (\<lambda>u v. real n * rdot (map (\<lambda>x. x * x) u) (map (\<lambda>x. x * x) v)) C C"
    by (rule pair_sum_mono) (simp add: rdot_power2_le assms)
  then show ?thesis
    by (simp only: pair_sum_const_mult pair_sum_map)
qed

lemma lw_beta_nonneg:
  assumes "\<And>c. c \<in> set C \<Longrightarrow> length c = n" "0 < n"
  shows "0 \<le> lw_beta n C"
proof -
  define P where "P = pair_sum rdot (map (map (\<lambda>x. x * x)) C) (map (map (\<lambda>x. x * x)) C)"
  define Q where "Q = pair_sum (\<lambda>u v. (rdot u v)\<^sup>2) C C"
  have "Q \<le> real n * P"
    unfolding P_def Q_def by (rule pair_sum_sq_le) (rule assms(1))
  then have "Q / (real n)\<^sup>2 \<le> P / real n"
    using assms(2) by (simp add: field_simps power2_eq_square)
  then have "0 \<le> P / real n - Q / real (n ^ 2)"
    by simp
  then show ?thesis
    unfolding lw_beta_def P_def [symmetric] Q_def [symmetric]
    by (intro mult_nonneg_nonneg) simp_all
qed

lemma sum_list_squares: "(\<Sum>x\<leftarrow>c. x * x) = rdot c c"
  by (simp add: rdot_def zip_same_conv_map comp_def)

lemma lw_delta_eq:
  assumes "C \<noteq> []"
  shows "lw_delta n C =
           (pair_sum (\<lambda>u v. (rdot u v)\<^sup>2) C C / real (n ^ 2)
              - (sum_list (lw_trace n C))\<^sup>2 / real (length C)) / real (length C)"
proof -
  have d: "real (length C) \<noteq> 0" using assms by simp
  show ?thesis
    unfolding lw_delta_def lw_mu_def using d
    by (simp add: field_simps power2_eq_square)
qed

lemma lw_delta_nonneg:
  assumes "C \<noteq> []" "0 < n"
  shows "0 \<le> lw_delta n C"
proof -
  define d where "d = real (length C)"
  define Q where "Q = pair_sum (\<lambda>u v. (rdot u v)\<^sup>2) C C"
  define t where "t = lw_trace n C"
  have d: "0 < d" using assms(1) by (simp add: d_def)
  have len: "real (length t) = d"
    by (simp add: t_def lw_trace_def d_def)
  have "(sum_list t)\<^sup>2 \<le> d * (\<Sum>w\<leftarrow>t. w\<^sup>2)"
    using sum_list_power2_le [of t] by (simp only: len)
  also have "(\<Sum>w\<leftarrow>t. w\<^sup>2) = (\<Sum>c\<leftarrow>C. (rdot c c)\<^sup>2) / real (n ^ 2)"
  proof -
    have "(\<Sum>w\<leftarrow>t. w\<^sup>2) = (\<Sum>c\<leftarrow>C. (rdot c c)\<^sup>2 / real (n ^ 2))"
      by (simp add: t_def lw_trace_def comp_def sum_list_squares power_divide)
    also have "\<dots> = (\<Sum>c\<leftarrow>C. (1 / real (n ^ 2)) * (rdot c c)\<^sup>2)"
      by simp
    also have "\<dots> = (1 / real (n ^ 2)) * (\<Sum>c\<leftarrow>C. (rdot c c)\<^sup>2)"
      by (rule sum_list_const_mult)
    finally show ?thesis by simp
  qed
  also have "(\<Sum>c\<leftarrow>C. (rdot c c)\<^sup>2) \<le> Q"
    unfolding Q_def by (rule diag_le_pair_sum) simp
  finally have "(sum_list t)\<^sup>2 \<le> d * (Q / real (n ^ 2))"
    using d assms(2) by (simp add: divide_right_mono mult_left_mono)
  then have "(sum_list t)\<^sup>2 / d \<le> Q / real (n ^ 2)"
    using d by (simp add: field_simps)
  then have "0 \<le> (Q / real (n ^ 2) - (sum_list t)\<^sup>2 / d) / d"
    using d by simp
  then show ?thesis
    by (simp only: lw_delta_eq [OF assms(1)] Q_def t_def d_def)
qed

lemma lw_shrinkage_range:
  assumes "\<And>c. c \<in> set C \<Longrightarrow> length c = n" "C \<noteq> []" "0 < n"
  shows "0 \<le> lw_shrinkage n C \<and> lw_shrinkage n C \<le> 1"
proof -
  have b: "0 \<le> lw_beta n C" by (rule lw_beta_nonneg) (use assms in auto)
  have d: "0 \<le> lw_delta n C" by (rule lw_delta_nonneg) (use assms in auto)
  show ?thesis
  proof (cases "lw_delta n C = 0")
    case True
    with b show ?thesis by (simp add: lw_shrinkage_def Let_def)
  next
    case False
    with d have "0 < lw_delta n C" by simp
    with b show ?thesis
      by (auto simp: lw_shrinkage_def Let_def min_def)
  qed
qed

lemma lw_shrinkage_divisor:
  assumes "\<And>c. c \<in> set C \<Longrightarrow> length c = n" "C \<noteq> []" "0 < n"
    "min (lw_beta n C) (lw_delta n C) \<noteq> 0"
  shows "lw_delta n C \<noteq> 0"
proof
  assume z: "lw_delta n C = 0"
  have "0 \<le> lw_beta n C" by (rule lw_beta_nonneg) (use assms in auto)
  with z have "min (lw_beta n C) (lw_delta n C) = 0" by simp
  with assms(4) show False by simp
qed

lemma py_min_Fin: "py_min (Fin a) (Fin b) = Fin (min a b)"
  by (auto simp: py_min_def min_def)

lemma check_array_ok:
  "all_finite X \<Longrightarrow> 0 < shape0 X \<Longrightarrow> 0 < shape1 X \<Longrightarrow> check_array f X = Inr X"
  by (simp add: check_array_def)

lemma squares_Fin:
  "map (map np_square) (map (map Fin) C) = map (map Fin) (map (map (\<lambda>x. x * x)) C)"
  by (simp add: comp_def np_square_def)

lemma np_sum_Fin_comp: "np_sum (map (Fin \<circ> f) xs) = Fin (\<Sum>x\<leftarrow>xs. f x)"
  using np_sum_Fin [of "map f xs"] by simp

lemma np_sum_Fin_lambda: "np_sum (map (\<lambda>x. Fin (f x)) xs) = Fin (\<Sum>x\<leftarrow>xs. f x)"
  using np_sum_Fin [of "map f xs"] by (simp add: comp_def)

lemma emp_cov_trace_Fin:
  "n \<noteq> 0 \<Longrightarrow>
   map (\<lambda>c. np_true_divide (np_sum c) (Fin (real n))) (map (map Fin) (map (map (\<lambda>x. x * x)) C))
     = map Fin (lw_trace n C)"
proof -
  assume n: "n \<noteq> 0"
  have "map (\<lambda>c. np_true_divide (np_sum c) (Fin (real n))) (map (map Fin) (map (map (\<lambda>x. x * x)) C))
          = map (\<lambda>c. np_true_divide (Fin (sum_list c)) (Fin (real n))) (map (map (\<lambda>x. x * x)) C)"
    by (simp add: np_sum_Fin_comp del: np_true_divide.simps)
  also have "\<dots> = map Fin (lw_trace n C)"
    using n by (simp add: lw_trace_def comp_def)
  finally show ?thesis .
qed

lemma length_rcols [simp]: "length (rcols d R) = d"
  by (simp add: rcols_def)

lemma length_col: "c \<in> set (rcols d R) \<Longrightarrow> length c = length R"
  by (auto simp: rcols_def)

lemma shrinkage_tail_Fin:
  assumes "n \<noteq> 0" "d \<noteq> 0" "length C = d"
    and "min (lw_beta n C) (lw_delta n C) \<noteq> 0 \<Longrightarrow> lw_delta n C \<noteq> 0"
  shows
   "(let beta = np_multiply
                  (np_true_divide (Fin 1) (Fin (real (d * n))))
                  (np_subtract (np_true_divide (Fin (pair_sum rdot (map (map (\<lambda>x. x * x)) C)
                                                        (map (map (\<lambda>x. x * x)) C)))
                                  (Fin (real n)))
                     (np_true_divide (Fin (pair_sum (\<lambda>u v. (rdot u v)\<^sup>2) C C)) (Fin (real (n ^ 2)))));
         delta = np_add
                   (np_subtract (np_true_divide (Fin (pair_sum (\<lambda>u v. (rdot u v)\<^sup>2) C C))
                                    (Fin (real (n ^ 2))))
                      (np_multiply (np_multiply (Fin 2) (Fin (lw_mu n C)))
                          (Fin (sum_list (lw_trace n C)))))
                   (np_multiply (Fin (real d)) (np_square (Fin (lw_mu n C))));
         delta = np_true_divide delta (Fin (real d));
         beta = py_min beta delta;
         shrinkage = (if np_equal beta (Fin 0) then Fin 0 else np_true_divide beta delta)
     in shrinkage) = Fin (lw_shrinkage n C)"
proof -
  have b: "np_multiply
                  (np_true_divide (Fin 1) (Fin (real (d * n))))
                  (np_subtract (np_true_divide (Fin (pair_sum rdot (map (map (\<lambda>x. x * x)) C)
                                                        (map (map (\<lambda>x. x * x)) C)))
                                  (Fin (real n)))
                     (np_true_divide (Fin (pair_sum (\<lambda>u v. (rdot u v)\<^sup>2) C C)) (Fin (real (n ^ 2)))))
           = Fin (lw_beta n C)"
    using assms(1,2,3) by (simp add: lw_beta_def np_subtract_def)
  have d: "np_true_divide (np_add
                   (np_subtract (np_true_divide (Fin (pair_sum (\<lambda>u v. (rdot u v)\<^sup>2) C C))
                                    (Fin (real (n ^ 2))))
                      (np_multiply (np_multiply (Fin 2) (Fin (lw_mu n C)))
                          (Fin (sum_list (lw_trace n C)))))
                   (np_multiply (Fin (real d)) (np_square (Fin (lw_mu n C)))))
               (Fin (real d))
           = Fin (lw_delta n C)"
    using assms(1,2,3) by (simp add: lw_delta_def np_subtract_def np_square_def)
  show ?thesis
    using assms(4)
    by (simp only: Let_def b d py_min_Fin) (simp add: lw_shrinkage_def Let_def)
qed

lemma ledoit_wolf_shrinkage_Fin:
  assumes "is_ndarray2 X" "all_finite X" "0 < shape0 X" "0 < shape1 X" "shape1 X \<noteq> 1"
  shows "ledoit_wolf_shrinkage X b
           = Inr (Fin (lw_shrinkage (shape0 X) (rcols (shape1 X) (reals X))))"
proof -
  define n where "n = shape0 X"
  define d where "d = shape1 X"
  define C where "C = rcols d (reals X)"
  have n: "n \<noteq> 0" "0 < n" using assms(3) by (simp_all add: n_def)
  have d: "d \<noteq> 0" "d \<noteq> 1" using assms(4,5) by (simp_all add: d_def)
  have lenC: "length C = d" by (simp add: C_def)
  have C: "C \<noteq> []" using d lenC by auto
  have cols: "\<And>c. c \<in> set C \<Longrightarrow> length c = n"
    by (simp add: C_def n_def length_col length_reals [OF assms(1)])
  have div: "min (lw_beta n C) (lw_delta n C) \<noteq> 0 \<Longrightarrow> lw_delta n C \<noteq> 0"
    by (rule lw_shrinkage_divisor [OF cols C n(2)])
  have mu: "np_true_divide (Fin (sum_list (lw_trace n C))) (Fin (real d)) = Fin (lw_mu n C)"
    using d(1) by (simp add: lw_mu_def lenC)
  have d1: "(d = 1) = False" using d(2) by simp
  show ?thesis
    apply (simp only: ledoit_wolf_shrinkage_def check_array_ok [OF assms(2,3,4)] sum.case
          Let_def np_transpose_Fin [OF assms(1,2)] squares_Fin
          n_def [symmetric] d_def [symmetric] C_def [symmetric]
          emp_cov_trace_Fin [OF n(1)] np_sum_Fin mu lw_block_sums_Fin prod.case d1 if_False)
    apply (rule arg_cong [where f = Inr])
    apply (rule shrinkage_tail_Fin [unfolded Let_def, OF n(1) d(1) lenC div])
    apply assumption
    done
qed

lemma empirical_covariance_Fin:
  assumes "is_ndarray2 X" "all_finite X" "0 < shape0 X" "0 < shape1 X"
  shows "empirical_covariance X
           = Inr (map (map Fin) (emp_cov (shape0 X) (rcols (shape1 X) (reals X))))"
  using assms(3)
  by (simp add: empirical_covariance_def check_array_ok [OF assms(2,3,4)]
        np_transpose_Fin [OF assms(1,2)] emp_cov_def comp_def np_dot_Fin)

lemma emp_cov_nth:
  "i < length C \<Longrightarrow> j < length C \<Longrightarrow> emp_cov n C ! i ! j = rdot (C ! i) (C ! j) / real n"
  by (simp add: emp_cov_def)

lemma length_emp_cov [simp]: "length (emp_cov n C) = length C"
  by (simp add: emp_cov_def)

lemma np_trace_Fin:
  assumes "\<And>r. r \<in> set S \<Longrightarrow> length r = length S"
  shows "np_trace (map (map Fin) S) = Fin (\<Sum>i\<leftarrow>[0..<length S]. S ! i ! i)"
proof -
  have "map (\<lambda>i. map (map Fin) S ! i ! i) [0..<length S] = map (\<lambda>i. Fin (S ! i ! i)) [0..<length S]"
    using assms by (auto simp: nth_mem)
  then show ?thesis
    by (simp only: np_trace_def length_map np_sum_Fin_lambda)
qed

lemma shrunk_Fin:
  assumes "\<And>r. r \<in> set S \<Longrightarrow> length r = d" "length S = d"
  shows "(let scaled = map (map (np_multiply (np_subtract (Fin 1) (Fin s)))) (map (map Fin) S)
          in map (\<lambda>i. map (\<lambda>j.
                  if i = j then np_add (scaled ! i ! j) (np_multiply (Fin s) (Fin mu))
                  else scaled ! i ! j) [0..<d]) [0..<d])
         = map (map Fin)
             (map (\<lambda>i. map (\<lambda>j. (1 - s) * (S ! i ! j) + (if i = j then s * mu else 0)) [0..<d]) [0..<d])"
proof -
  have len: "length (S ! i) = d" if "i < d" for i
    using that assms by (simp add: nth_mem)
  have nth: "map (map (np_multiply (np_subtract (Fin 1) (Fin s)) \<circ> Fin)) S ! i ! j
               = Fin ((1 - s) * (S ! i ! j))"
    if "i < d" "j < d" for i j
    using that assms(2) len [OF that(1)] by (simp add: np_subtract_def)
  show ?thesis
    unfolding Let_def by (auto simp: nth)
qed

lemma rows_emp_cov: "r \<in> set (emp_cov n C) \<Longrightarrow> length r = length C"
  by (auto simp: emp_cov_def)

lemma concat_single_columns:
  "(\<And>r. r \<in> set R \<Longrightarrow> length r = 1) \<Longrightarrow> concat R = map (\<lambda>r. r ! 0) R"
proof (induction R)
  case Nil
  then show ?case by simp
next
  case (Cons r R)
  then have "length r = 1" by simp
  then obtain x where "r = [x]" by (cases r) auto
  with Cons show ?case by simp
qed

lemma lw_cov_single: "lw_cov n [c] = [[rdot c c / real n]]"
  by (simp add: lw_cov_def emp_cov_def Let_def algebra_simps)

lemma ledoit_wolf_Fin:
  assumes "is_ndarray2 X" "all_finite X" "0 < shape0 X" "0 < shape1 X"
  shows "\<exists>s. ledoit_wolf X b
           = Inr (map (map Fin) (lw_cov (shape0 X) (rcols (shape1 X) (reals X))), s)"
proof (cases "shape1 X = 1")
  case True
  have rows: "\<And>r. r \<in> set (reals X) \<Longrightarrow> length r = 1"
    using assms(1) True by (auto simp: is_ndarray2_def reals_def list_all_iff)
  have "concat (cells X) = map Fin (concat (reals X))"
    by (simp only: cells_reals [OF assms(2), symmetric] map_concat)
  also have "\<dots> = map Fin (map (\<lambda>r. r ! 0) (reals X))"
    by (simp only: concat_single_columns [OF rows])
  finally have c: "concat (cells X) = map Fin (map (\<lambda>r. r ! 0) (reals X))" .
  have sq: "np_sum (map np_square (map Fin xs)) = Fin (rdot xs xs)" for xs
    by (simp add: comp_def np_square_def np_sum_Fin_lambda sum_list_squares)
  have C: "rcols 1 (reals X) = [map (\<lambda>r. r ! 0) (reals X)]"
    by (simp add: rcols_def)
  have n: "np_true_divide (Fin x) (Fin (real (shape0 X * 1))) = Fin (x / real (shape0 X))" for x
    using assms(3) by simp
  show ?thesis
    by (simp only: ledoit_wolf_def True c sq n C lw_cov_single list.map) simp
next
  case False
  define n where "n = shape0 X"
  define d where "d = shape1 X"
  define C where "C = rcols d (reals X)"
  define S where "S = emp_cov n C"
  have d: "d \<noteq> 0" "(d = 1) = False" using assms(4) False by (simp_all add: d_def)
  have lenC: "length C = d" by (simp add: C_def)
  have lenS: "length S = d" by (simp add: S_def lenC)
  have rowsS: "\<And>r. r \<in> set S \<Longrightarrow> length r = d"
    by (simp add: S_def rows_emp_cov lenC)
  have rowsS': "\<And>r. r \<in> set S \<Longrightarrow> length r = length S"
    by (simp add: rowsS lenS)
  have mu: "np_true_divide (np_trace (map (map Fin) S)) (Fin (real d))
              = Fin ((\<Sum>i\<leftarrow>[0..<d]. S ! i ! i) / real d)"
    using d(1) by (simp add: np_trace_Fin [OF rowsS'] lenS)
  have "ledoit_wolf X b =
          Inr (map (map Fin)
                 (map (\<lambda>i. map (\<lambda>j. (1 - lw_shrinkage n C) * (S ! i ! j)
                       + (if i = j then lw_shrinkage n C * ((\<Sum>i\<leftarrow>[0..<d]. S ! i ! i) / real d) else 0))
                    [0..<d]) [0..<d]),
               Fin (lw_shrinkage n C))"
    by (simp only: ledoit_wolf_def ledoit_wolf_shrinkage_Fin [OF assms False]
          empirical_covariance_Fin [OF assms] sum.case
          n_def [symmetric] d_def [symmetric] C_def [symmetric] S_def [symmetric]
          d(2) if_False mu
          shrunk_Fin [OF rowsS lenS, unfolded Let_def] Let_def)
  then show ?thesis
    by (simp add: lw_cov_def Let_def lenC S_def n_def d_def C_def)
qed

lemma subtract_row_Fin:
  assumes "is_ndarray2 X" "all_finite X" "length mu = shape1 X"
  shows "is_ndarray2 (subtract_row X (map Fin mu))"
    and "all_finite (subtract_row X (map Fin mu))"
    and "reals (subtract_row X (map Fin mu)) = map (\<lambda>r. map2 (-) r mu) (reals X)"
    and "shape0 (subtract_row X (map Fin mu)) = shape0 X"
    and "shape1 (subtract_row X (map Fin mu)) = shape1 X"
proof -
  have m2: "map2 np_subtract (map Fin r) (map Fin mu) = map Fin (map2 (-) r mu)" for r
    by (induction r mu rule: list_induct2') (simp_all add: np_subtract_def)
  have cells: "cells (subtract_row X (map Fin mu))
                 = map (map Fin) (map (\<lambda>r. map2 (-) r mu) (reals X))"
    by (simp add: subtract_row_def cells_reals [OF assms(2), symmetric] comp_def m2)
  show "is_ndarray2 (subtract_row X (map Fin mu))"
    using assms(1,3) by (auto simp: is_ndarray2_def subtract_row_def list_all_iff)
  show "all_finite (subtract_row X (map Fin mu))"
    by (simp add: all_finite_def cells list_all_iff)
  show "reals (subtract_row X (map Fin mu)) = map (\<lambda>r. map2 (-) r mu) (reals X)"
    by (simp add: reals_def cells comp_def)
  show "shape0 (subtract_row X (map Fin mu)) = shape0 X"
    and "shape1 (subtract_row X (map Fin mu)) = shape1 X"
    by (simp_all add: subtract_row_def)
qed

lemma length_average_of_rows [simp]: "length (average_of_rows d R) = d"
  by (simp add: average_of_rows_def)

lemma lw_estimate_parameters_Fin:
  assumes "is_ndarray2 X" "all_finite X" "0 < shape0 X" "0 < shape1 X"
    and "1 \<le> block_size (model self)" "\<not> assume_centered (model self)"
  shows "fst (lw_estimate_parameters self X)
           = Inr (Arr1 (map Fin (average_of_rows (shape1 X) (reals X))),
                  Arr2 (map (map Fin)
                    (lw_cov (shape0 X) (rcols (shape1 X) (centered_rows (shape1 X) (reals X))))))"
proof -
  define mu where "mu = average_of_rows (shape1 X) (reals X)"
  define Xc where "Xc = subtract_row X (map Fin mu)"
  have loc: "np_mean_axis0 X = map Fin mu"
    using assms(3) by (simp add: mu_def np_mean_axis0_Fin [OF assms(1,2)])
  have len: "length mu = shape1 X" by (simp add: mu_def)
  note sub = subtract_row_Fin [OF assms(1,2) len, folded Xc_def]
  have pos: "0 < shape0 Xc" "0 < shape1 Xc"
    using assms(3,4) by (simp_all add: sub)
  obtain s where lw: "ledoit_wolf Xc (nat (block_size (model self)))
      = Inr (map (map Fin) (lw_cov (shape0 Xc) (rcols (shape1 Xc) (reals Xc))), s)"
    using ledoit_wolf_Fin [OF sub(1,2) pos] by blast
  have c: "reals Xc = centered_rows (shape1 X) (reals X)"
    by (simp add: sub centered_rows_def mu_def)
  show ?thesis
    using assms(5,6)
    by (simp add: lw_estimate_parameters_def LedoitWolf_fit_def check_array_ok [OF assms(2,3,4)]
          Let_def loc Xc_def [symmetric] lw sub(4,5) c mu_def [symmetric])
qed

section \<open>Shrunk covariance, symmetry and positive semi-definiteness\<close>

lemma sample_covariance_link:
  assumes "\<And>r. r \<in> set R \<Longrightarrow> length r = d"
  shows "emp_cov (length R) (rcols d (centered_rows d R)) = sample_covariance d R"
proof -
  define mu where "mu = average_of_rows d R"
  have lmu: "length mu = d"
    by (simp add: mu_def average_of_rows_def)
  have col: "map (\<lambda>r. r ! i) (centered_rows d R) = map (\<lambda>r. r ! i - mu ! i) R" if "i < d" for i
    using that assms lmu by (simp add: centered_rows_def mu_def [symmetric] comp_def)
  have "emp_cov (length R) (rcols d (centered_rows d R))
          = map (\<lambda>i. map (\<lambda>j. rdot (map (\<lambda>r. r ! i) (centered_rows d R))
                                 (map (\<lambda>r. r ! j) (centered_rows d R)) / real (length R))
                   [0..<d]) [0..<d]"
    by (simp add: emp_cov_def rcols_def comp_def)
  also have "\<dots> = map (\<lambda>i. map (\<lambda>j. rdot (map (\<lambda>r. r ! i - mu ! i) R)
                                 (map (\<lambda>r. r ! j - mu ! j) R) / real (length R))
                   [0..<d]) [0..<d]"
    by (simp add: col)
  finally show ?thesis
    by (simp add: sample_covariance_def Let_def mu_def rdot_map)
qed

lemma length_centered_rows [simp]: "length (centered_rows d R) = length R"
  by (simp add: centered_rows_def)

lemma lw_cov_link:
  assumes "\<And>r. r \<in> set R \<Longrightarrow> length r = d"
  shows "lw_cov (length R) (rcols d (centered_rows d R)) = shrunk_covariance d R"
  by (simp add: lw_cov_def shrunk_covariance_def shrinkage_intensity_def Let_def
        sample_covariance_link [OF assms])

lemma rows_reals: "is_ndarray2 X \<Longrightarrow> r \<in> set (reals X) \<Longrightarrow> length r = shape1 X"
  by (auto simp: is_ndarray2_def reals_def list_all_iff)

lemma lw_estimate_parameters_shrunk:
  assumes "is_ndarray2 X" "all_finite X" "0 < shape0 X" "0 < shape1 X"
    and "1 \<le> block_size (model self)" "\<not> assume_centered (model self)"
  shows "fst (lw_estimate_parameters self X)
           = Inr (Arr1 (map Fin (average_of_rows (shape1 X) (reals X))),
                  Arr2 (map (map Fin) (shrunk_covariance (shape1 X) (reals X))))"
  using lw_estimate_parameters_Fin [OF assms]
        lw_cov_link [of "reals X" "shape1 X", OF rows_reals [OF assms(1)]]
  by (simp add: length_reals [OF assms(1)])

lemma sum_list_as_sum: "(\<Sum>x\<leftarrow>xs. f x) = (\<Sum>k<length xs. f (xs ! k))"
  using sum_list_sum_nth [of "map f xs"] by (simp add: atLeast0LessThan)

lemma sum_list_upt_as_sum: "(\<Sum>i\<leftarrow>[0..<d]. f i) = (\<Sum>i<d. f i)"
  by (simp add: interv_sum_list_conv_sum_set_nat atLeast0LessThan)

lemma quad_gram:
  fixes a :: "nat \<Rightarrow> nat \<Rightarrow> real"
  shows "(\<Sum>i<d. \<Sum>j<d. x i * ((\<Sum>k<n. a k i * a k j) / m) * x j)
           = (\<Sum>k<n. (\<Sum>i<d. x i * a k i)\<^sup>2) / m"
proof -
  have "(\<Sum>k<n. (\<Sum>i<d. x i * a k i)\<^sup>2) = (\<Sum>k<n. \<Sum>i<d. \<Sum>j<d. (x i * a k i) * (x j * a k j))"
    by (simp add: power2_eq_square sum_product)
  also have "\<dots> = (\<Sum>i<d. \<Sum>k<n. \<Sum>j<d. (x i * a k i) * (x j * a k j))"
    by (rule sum.swap)
  also have "\<dots> = (\<Sum>i<d. \<Sum>j<d. \<Sum>k<n. (x i * a k i) * (x j * a k j))"
    by (rule sum.cong [OF refl]) (rule sum.swap)
  also have "\<dots> = (\<Sum>i<d. \<Sum>j<d. x i * (\<Sum>k<n. a k i * a k j) * x j)"
    by (simp add: sum_distrib_left sum_distrib_right mult_ac)
  finally have "(\<Sum>k<n. (\<Sum>i<d. x i * a k i)\<^sup>2) / m
      = (\<Sum>i<d. \<Sum>j<d. x i * (\<Sum>k<n. a k i * a k j) * x j) / m"
    by simp
  also have "\<dots> = (\<Sum>i<d. \<Sum>j<d. x i * ((\<Sum>k<n. a k i * a k j) / m) * x j)"
    by (subst sum_divide_distrib, rule sum.cong [OF refl],
        subst sum_divide_distrib, rule sum.cong [OF refl], simp)
  finally show ?thesis by simp
qed

lemma quad_gram_nonneg:
  fixes a :: "nat \<Rightarrow> nat \<Rightarrow> real"
  assumes "0 \<le> m"
  shows "0 \<le> (\<Sum>i<d. \<Sum>j<d. x i * ((\<Sum>k<n. a k i * a k j) / m) * x j)"
  unfolding quad_gram using assms by (simp add: sum_nonneg)

lemma quad_form_as_sum:
  "length M = d \<Longrightarrow> quad_form M x = (\<Sum>i<d. \<Sum>j<d. x ! i * (M ! i ! j) * x ! j)"
  by (simp add: quad_form_def sum_list_upt_as_sum)

lemma length_unbiased [simp]: "length (unbiased_sample_covariance d R) = d"
  by (simp add: unbiased_sample_covariance_def Let_def)

lemma length_sample_covariance [simp]: "length (sample_covariance d R) = d"
  by (simp add: sample_covariance_def Let_def)

lemma length_shrunk_covariance [simp]: "length (shrunk_covariance d R) = d"
  by (simp add: shrunk_covariance_def Let_def)

lemma unbiased_nth:
  "i < d \<Longrightarrow> j < d \<Longrightarrow>
   unbiased_sample_covariance d R ! i ! j
     = (\<Sum>k<length R. (R ! k ! i - average_of_rows d R ! i) * (R ! k ! j - average_of_rows d R ! j))
         / (real (length R) - 1)"
  by (simp add: unbiased_sample_covariance_def Let_def sum_list_as_sum)

lemma sample_nth:
  "i < d \<Longrightarrow> j < d \<Longrightarrow>
   sample_covariance d R ! i ! j
     = (\<Sum>k<length R. (R ! k ! i - average_of_rows d R ! i) * (R ! k ! j - average_of_rows d R ! j))
         / real (length R)"
  by (simp add: sample_covariance_def Let_def sum_list_as_sum)

lemma quad_form_unbiased:
  "quad_form (unbiased_sample_covariance d R) x
     = (\<Sum>k<length R. (\<Sum>i<d. x ! i * (R ! k ! i - average_of_rows d R ! i))\<^sup>2)
         / (real (length R) - 1)"
proof -
  have "quad_form (unbiased_sample_covariance d R) x
      = (\<Sum>i<d. \<Sum>j<d. x ! i *
           ((\<Sum>k<length R. (R ! k ! i - average_of_rows d R ! i) * (R ! k ! j - average_of_rows d R ! j))
              / (real (length R) - 1)) * x ! j)"
    by (simp add: quad_form_as_sum unbiased_nth)
  then show ?thesis by (simp only: quad_gram)
qed

lemma quad_form_sample:
  "quad_form (sample_covariance d R) x
     = (\<Sum>k<length R. (\<Sum>i<d. x ! i * (R ! k ! i - average_of_rows d R ! i))\<^sup>2)
         / real (length R)"
proof -
  have "quad_form (sample_covariance d R) x
      = (\<Sum>i<d. \<Sum>j<d. x ! i *
           ((\<Sum>k<length R. (R ! k ! i - average_of_rows d R ! i) * (R ! k ! j - average_of_rows d R ! j))
              / real (length R)) * x ! j)"
    by (simp add: quad_form_as_sum sample_nth)
  then show ?thesis by (simp only: quad_gram)
qed

lemma psd_unbiased: "1 \<le> length R \<Longrightarrow> 0 \<le> quad_form (unbiased_sample_covariance d R) x"
  by (simp add: quad_form_unbiased sum_nonneg)

lemma psd_sample: "0 \<le> quad_form (sample_covariance d R) x"
  by (simp add: quad_form_sample sum_nonneg)

lemma sample_diag_nonneg: "i < d \<Longrightarrow> 0 \<le> sample_covariance d R ! i ! i"
  by (simp add: sample_nth sum_nonneg)

lemma shrunk_nth:
  "i < d \<Longrightarrow> j < d \<Longrightarrow>
   shrunk_covariance d R ! i ! j
     = (1 - shrinkage_intensity d R) * (sample_covariance d R ! i ! j)
       + (if i = j then shrinkage_intensity d R
                         * ((\<Sum>i<d. sample_covariance d R ! i ! i) / real d) else 0)"
  by (simp add: shrunk_covariance_def Let_def sum_list_upt_as_sum)

lemma quad_form_shrunk:
  "length x = d \<Longrightarrow>
   quad_form (shrunk_covariance d R) x
     = (1 - shrinkage_intensity d R) * quad_form (sample_covariance d R) x
       + shrinkage_intensity d R * ((\<Sum>i<d. sample_covariance d R ! i ! i) / real d) * norm2 x"
proof -
  assume len: "length x = d"
  define s where "s = shrinkage_intensity d R"
  define mu where "mu = (\<Sum>i<d. sample_covariance d R ! i ! i) / real d"
  define S where "S = sample_covariance d R"
  have "quad_form (shrunk_covariance d R) x
      = (\<Sum>i<d. \<Sum>j<d. x ! i * ((1 - s) * (S ! i ! j) + (if i = j then s * mu else 0)) * x ! j)"
    unfolding s_def mu_def S_def by (simp add: quad_form_as_sum shrunk_nth)
  also have "\<dots> = (\<Sum>i<d. (\<Sum>j<d. (1 - s) * (x ! i * (S ! i ! j) * x ! j))
                          + (\<Sum>j<d. if i = j then s * mu * (x ! i * x ! i) else 0))"
    by (intro sum.cong refl, subst sum.distrib [symmetric], intro sum.cong refl)
       (simp add: algebra_simps)
  also have "\<dots> = (\<Sum>i<d. (1 - s) * (\<Sum>j<d. x ! i * (S ! i ! j) * x ! j) + s * mu * (x ! i * x ! i))"
    by (intro sum.cong refl) (simp add: sum_distrib_left)
  also have "\<dots> = (1 - s) * (\<Sum>i<d. \<Sum>j<d. x ! i * (S ! i ! j) * x ! j)
                    + s * mu * (\<Sum>i<d. x ! i * x ! i)"
    by (simp add: sum.distrib sum_distrib_left)
  finally show ?thesis
    by (simp add: quad_form_as_sum S_def s_def mu_def norm2_def len sum_list_upt_as_sum)
qed

lemma norm2_nonneg: "0 \<le> norm2 x"
  by (simp add: norm2_def sum_list_upt_as_sum sum_nonneg)

lemma shrinkage_intensity_range:
  assumes "0 < d" "0 < length R"
  shows "0 \<le> shrinkage_intensity d R \<and> shrinkage_intensity d R \<le> 1"
  unfolding shrinkage_intensity_def
proof (rule lw_shrinkage_range)
  show "rcols d (centered_rows d R) \<noteq> []"
    using assms(1) by (simp add: rcols_def)
  show "0 < length R" by (rule assms(2))
  show "length c = length R" if "c \<in> set (rcols d (centered_rows d R))" for c
    using length_col [OF that] by simp
qed

lemma shrunk_mu_nonneg: "0 \<le> (\<Sum>i<d. sample_covariance d R ! i ! i) / real d"
  by (intro divide_nonneg_nonneg sum_nonneg) (simp_all add: sample_diag_nonneg)

lemma psd_shrunk:
  assumes "0 < d" "0 < length R" "length x = d"
  shows "0 \<le> quad_form (shrunk_covariance d R) x"
proof -
  have s: "0 \<le> shrinkage_intensity d R" "0 \<le> 1 - shrinkage_intensity d R"
    using shrinkage_intensity_range [OF assms(1,2)] by simp_all
  show ?thesis
    unfolding quad_form_shrunk [OF assms(3)]
    by (intro add_nonneg_nonneg mult_nonneg_nonneg s psd_sample shrunk_mu_nonneg norm2_nonneg)
qed

lemma np_atleast_2d_squeeze: "np_atleast_2d (np_squeeze2 c) = c"
  by (simp add: np_atleast_2d_def np_squeeze2_def split: list.splits)

lemma the_real_Fin_matrix: "map (map the_real) (map (map Fin) M) = M"
  by (simp add: comp_def)

lemma isfinite_Fin_matrix: "list_all (list_all isfinite) (map (map Fin) M)"
  by (simp add: list_all_iff)

lemma is_symmetric_Fin:
  assumes "length M = d" "\<And>i j. i < d \<Longrightarrow> j < d \<Longrightarrow> length (M ! i) = d \<and> M ! i ! j = M ! j ! i"
  shows "is_symmetric (map (map Fin) M)"
  using assms by (auto simp: is_symmetric_def list_all_iff)

lemma symmetric_unbiased: "is_symmetric (map (map Fin) (unbiased_sample_covariance d R))"
  by (rule is_symmetric_Fin [where d = d])
     (simp_all add: unbiased_sample_covariance_def Let_def mult.commute)

lemma symmetric_shrunk: "is_symmetric (map (map Fin) (shrunk_covariance d R))"
  by (rule is_symmetric_Fin [where d = d])
     (auto simp: shrunk_covariance_def sample_covariance_def Let_def mult.commute)

lemma init_parameters:
  "block_size (model (LeoditWolfEstimator_init None)) = 1000"
  "block_size (model (LeoditWolfEstimator_init (Some b))) = b"
  "\<not> assume_centered (model (LeoditWolfEstimator_init bs))"
  by (simp_all add: LeoditWolfEstimator_init_def LedoitWolf_init_def)

lemma lw_invalid_input:
  assumes "1 \<le> block_size (model self)" "\<not> (all_finite X \<and> 0 < shape0 X \<and> 0 < shape1 X)"
  shows "fst (lw_estimate_parameters self X)
           = Inl (if \<not> all_finite X then ValueError_not_finite
                  else if shape0 X = 0 then ValueError_no_samples else ValueError_no_features)"
  using assms
  by (auto simp: lw_estimate_parameters_def LedoitWolf_fit_def check_array_def)

text \<open>
  C5. LeoditWolfEstimator is built with \<open>block_size\<close> 1000 unless the caller gives another
  value, and always with \<open>assume_centered = False\<close>. The block size only cuts the internal
  sums into pieces: any two block sizes (at least 1, as scikit-learn requires) give the same
  result on every array. On valid data estimate_parameters returns the mean estimated from
  the data (the average of the rows, not zero) together with the shrunk covariance, whatever
  the block size.
\<close>

theorem shrinkage_estimator_configuration:
  "block_size (model (LeoditWolfEstimator_init None)) = 1000
   \<and> \<not> assume_centered (model (LeoditWolfEstimator_init bs))
   \<and> (is_ndarray2 X \<and> 1 \<le> b1 \<and> 1 \<le> b2 \<longrightarrow>
        fst (lw_estimate_parameters (LeoditWolfEstimator_init (Some b1)) X)
          = fst (lw_estimate_parameters (LeoditWolfEstimator_init (Some b2)) X))
   \<and> (is_ndarray2 X \<and> all_finite X \<and> 0 < shape0 X \<and> 0 < shape1 X \<and> 1 \<le> b1 \<longrightarrow>
        fst (lw_estimate_parameters (LeoditWolfEstimator_init (Some b1)) X)
          = Inr (Arr1 (map Fin (average_of_rows (shape1 X) (reals X))),
                 Arr2 (map (map Fin) (shrunk_covariance (shape1 X) (reals X)))))"
proof -
  have valid: "fst (lw_estimate_parameters (LeoditWolfEstimator_init (Some b)) X)
          = Inr (Arr1 (map Fin (average_of_rows (shape1 X) (reals X))),
                 Arr2 (map (map Fin) (shrunk_covariance (shape1 X) (reals X))))"
    if "is_ndarray2 X" "all_finite X" "0 < shape0 X" "0 < shape1 X" "1 \<le> b" for b
    by (rule lw_estimate_parameters_shrunk) (simp_all add: that init_parameters)
  have invalid: "fst (lw_estimate_parameters (LeoditWolfEstimator_init (Some b)) X)
           = Inl (if \<not> all_finite X then ValueError_not_finite
                  else if shape0 X = 0 then ValueError_no_samples else ValueError_no_features)"
    if "\<not> (all_finite X \<and> 0 < shape0 X \<and> 0 < shape1 X)" "1 \<le> b" for b
    by (rule lw_invalid_input) (simp_all add: that init_parameters)
  have same: "fst (lw_estimate_parameters (LeoditWolfEstimator_init (Some b1)) X)
          = fst (lw_estimate_parameters (LeoditWolfEstimator_init (Some b2)) X)"
    if "is_ndarray2 X" "1 \<le> b1" "1 \<le> b2"
  proof (cases "all_finite X \<and> 0 < shape0 X \<and> 0 < shape1 X")
    case True
    then show ?thesis using that by (simp add: valid)
  next
    case False
    show ?thesis
      by (simp only: invalid [OF False that(2)] invalid [OF False that(3)])
  qed
  show ?thesis
    using valid same by (simp add: init_parameters)
qed

text \<open>
  C6, as the code has it. For every array of finite values with at least one column, the
  covariance returned by MaxLikelihoodEstimator on at least two rows (on every release of
  NumPy), and the covariance returned by the shrinkage estimator on at least one row, are
  finite, symmetric and positive semi-definite: the quadratic form is non-negative at every
  vector \<open>x\<close>. (Symmetry is read with the equality of floating-point numbers, under which
  \<open>nan\<close> is not equal to itself.)
\<close>

theorem covariance_symmetric_psd:
  "is_ndarray2 X \<and> all_finite X \<and> 0 < shape1 X \<and> length x = shape1 X \<longrightarrow>
     (2 \<le> shape0 X \<longrightarrow>
        (\<exists>mean cov. mle_estimate_parameters release X = Inr (mean, cov)
           \<and> is_symmetric (np_atleast_2d cov)
           \<and> list_all (list_all isfinite) (np_atleast_2d cov)
           \<and> 0 \<le> quad_form (map (map the_real) (np_atleast_2d cov)) x))
     \<and> (1 \<le> shape0 X \<and> 1 \<le> b \<longrightarrow>
        (\<exists>mean cov.
           fst (lw_estimate_parameters (LeoditWolfEstimator_init (Some b)) X) = Inr (mean, Arr2 cov)
           \<and> is_symmetric cov
           \<and> list_all (list_all isfinite) cov
           \<and> 0 \<le> quad_form (map (map the_real) cov) x))"
proof (intro impI conjI; elim conjE)
  assume X: "is_ndarray2 X" "all_finite X" "0 < shape1 X" "length x = shape1 X"
    and n: "2 \<le> shape0 X"
  have "1 \<le> length (reals X)"
    using n by (simp add: length_reals [OF X(1)])
  then have "0 \<le> quad_form (unbiased_sample_covariance (shape1 X) (reals X)) x"
    by (rule psd_unbiased)
  then show "\<exists>mean cov. mle_estimate_parameters release X = Inr (mean, cov)
           \<and> is_symmetric (np_atleast_2d cov)
           \<and> list_all (list_all isfinite) (np_atleast_2d cov)
           \<and> 0 \<le> quad_form (map (map the_real) (np_atleast_2d cov)) x"
    by (simp add: mle_estimate_parameters_Fin [OF X(1,2) n] np_atleast_2d_squeeze
          symmetric_unbiased isfinite_Fin_matrix the_real_Fin_matrix del: map_map)
next
  assume X: "is_ndarray2 X" "all_finite X" "0 < shape1 X" "length x = shape1 X"
    and n: "1 \<le> shape0 X" and b: "1 \<le> b"
  have pos: "0 < shape0 X" using n by simp
  have "0 < length (reals X)"
    using n by (simp add: length_reals [OF X(1)])
  then have "0 \<le> quad_form (shrunk_covariance (shape1 X) (reals X)) x"
    using X(3,4) by (intro psd_shrunk)
  moreover have "fst (lw_estimate_parameters (LeoditWolfEstimator_init (Some b)) X)
          = Inr (Arr1 (map Fin (average_of_rows (shape1 X) (reals X))),
                 Arr2 (map (map Fin) (shrunk_covariance (shape1 X) (reals X))))"
    by (rule lw_estimate_parameters_shrunk) (simp_all add: X pos b init_parameters)
  ultimately show "\<exists>mean cov.
           fst (lw_estimate_parameters (LeoditWolfEstimator_init (Some b)) X) = Inr (mean, Arr2 cov)
           \<and> is_symmetric cov
           \<and> list_all (list_all isfinite) cov
           \<and> 0 \<le> quad_form (map (map the_real) cov) x"
    by (simp add: symmetric_shrunk isfinite_Fin_matrix the_real_Fin_matrix del: map_map)
qed

text \<open>
  The claim C6 as the specification states it fails on a valid matrix of one row and one
  column: on every release of NumPy, MaxLikelihoodEstimator returns the covariance \<open>nan\<close>,
  which is not finite and, not being equal to itself, not symmetric.
\<close>

theorem mle_single_sample_not_symmetric_counterexample:
  "is_ndarray2 single_sample \<and> all_finite single_sample \<and> 1 \<le> shape0 single_sample
   \<and> 1 \<le> shape1 single_sample
   \<and> mle_estimate_parameters NumPy_before_2_2 single_sample = Inr (Arr1 [Fin 1], Arr0 NaN)
   \<and> mle_estimate_parameters NumPy_from_2_2 single_sample = Inr (Arr1 [Fin 1], Arr0 NaN)
   \<and> np_atleast_2d (Arr0 NaN) = [[NaN]]
   \<and> \<not> is_symmetric [[NaN]]
   \<and> \<not> list_all (list_all isfinite) [[NaN]]"
  by code_simp

lemma m32_valid:
  "is_ndarray2 m32" "all_finite m32" "0 < shape0 m32" "0 < shape1 m32" "2 \<le> shape0 m32"
  "1 \<le> shape0 m32" "shape1 m32 = 2" "reals m32 = [[1, 2], [3, 5], [8, 13]]"
  by (simp_all add: m32_def is_ndarray2_def all_finite_def reals_def)

theorem shrinkage_estimator_configuration_witness:
  "is_ndarray2 m32 \<and> all_finite m32 \<and> 0 < shape0 m32 \<and> 0 < shape1 m32
   \<and> (1::int) \<le> 1 \<and> (1::int) \<le> 1000
   \<and> fst (lw_estimate_parameters (LeoditWolfEstimator_init (Some 1)) m32)
       = fst (lw_estimate_parameters (LeoditWolfEstimator_init (Some 1000)) m32)
   \<and> fst (lw_estimate_parameters (LeoditWolfEstimator_init (Some 1)) m32)
       = Inr (Arr1 [Fin 4, Fin (20 / 3)],
              Arr2 [[Fin (5400130 / 499311), Fin (1516303 / 166437)],
                    [Fin (1516303 / 166437), Fin (9690158 / 499311)]])"
proof -
  have a: "average_of_rows 2 [[1, 2], [3, 5], [8, 13]] = [4, 20 / 3]"
    by code_simp
  have c: "shrunk_covariance 2 [[1, 2], [3, 5], [8, 13]]
             = [[5400130 / 499311, 1516303 / 166437], [1516303 / 166437, 9690158 / 499311]]"
    by code_simp
  have v: "is_ndarray2 m32 \<and> all_finite m32 \<and> 0 < shape0 m32 \<and> 0 < shape1 m32
             \<and> (1::int) \<le> 1 \<and> (1::int) \<le> 1000"
    by (simp add: m32_valid)
  with shrinkage_estimator_configuration [of None m32 1 1000]
  have "fst (lw_estimate_parameters (LeoditWolfEstimator_init (Some 1)) m32)
          = fst (lw_estimate_parameters (LeoditWolfEstimator_init (Some 1000)) m32)"
    and "fst (lw_estimate_parameters (LeoditWolfEstimator_init (Some 1)) m32)
          = Inr (Arr1 (map Fin (average_of_rows (shape1 m32) (reals m32))),
                 Arr2 (map (map Fin) (shrunk_covariance (shape1 m32) (reals m32))))"
    by blast+
  then show ?thesis
    using v by (simp add: m32_valid(7,8) a c)
qed

theorem covariance_symmetric_psd_witness:
  "is_ndarray2 m32 \<and> all_finite m32 \<and> 0 < shape1 m32 \<and> length [1, - 1 :: real] = shape1 m32
   \<and> 2 \<le> shape0 m32 \<and> (1::int) \<le> 1000
   \<and> (\<exists>mean cov. mle_estimate_parameters NumPy_before_2_2 m32 = Inr (mean, cov)
           \<and> is_symmetric (np_atleast_2d cov)
           \<and> list_all (list_all isfinite) (np_atleast_2d cov)
           \<and> 0 \<le> quad_form (map (map the_real) (np_atleast_2d cov)) [1, - 1])
   \<and> (\<exists>mean cov. mle_estimate_parameters NumPy_from_2_2 m32 = Inr (mean, cov)
           \<and> is_symmetric (np_atleast_2d cov)
           \<and> list_all (list_all isfinite) (np_atleast_2d cov)
           \<and> 0 \<le> quad_form (map (map the_real) (np_atleast_2d cov)) [1, - 1])
   \<and> (\<exists>mean cov.
           fst (lw_estimate_parameters (LeoditWolfEstimator_init (Some 1000)) m32) = Inr (mean, Arr2 cov)
           \<and> is_symmetric cov
           \<and> list_all (list_all isfinite) cov
           \<and> 0 \<le> quad_form (map (map the_real) cov) [1, - 1])"
  using covariance_symmetric_psd
          [where X = m32 and x = "[1, - 1]" and b = 1000 and release = NumPy_before_2_2]
        covariance_symmetric_psd
          [where X = m32 and x = "[1, - 1]" and b = 1000 and release = NumPy_from_2_2]
        m32_valid
  by simp

section \<open>The condition number under shrinkage\<close>

lemma average_of_equal_rows:
  assumes "0 < n" "length r = d"
  shows "average_of_rows d (replicate n r) = r"
proof -
  have "average_of_rows d (replicate n r) = map (\<lambda>j. r ! j) [0..<length r]"
    using assms by (simp add: average_of_rows_def map_replicate_const sum_list_replicate)
  then show ?thesis
    by (simp only: map_nth)
qed

lemma unbiased_of_equal_rows:
  assumes "0 < n" "length r = d"
  shows "unbiased_sample_covariance d (replicate n r) = replicate d (replicate d 0)"
  using assms(1)
  by (simp add: unbiased_sample_covariance_def average_of_equal_rows [OF assms] Let_def
        map_replicate_const sum_list_replicate)

lemma shrunk_of_equal_rows:
  assumes "0 < n" "length r = d"
  shows "shrunk_covariance d (replicate n r) = replicate d (replicate d 0)"
proof -
  have S: "sample_covariance d (replicate n r) = replicate d (replicate d 0)"
    using assms(1)
    by (simp add: sample_covariance_def average_of_equal_rows [OF assms] Let_def
          map_replicate_const sum_list_replicate)
  have tr: "(\<Sum>i\<leftarrow>[0..<d]. replicate d (replicate d (0::real)) ! i ! i) = 0"
    by (simp add: sum_list_upt_as_sum)
  have "shrunk_covariance d (replicate n r) = map (\<lambda>i. map (\<lambda>j. 0) [0..<d]) [0..<d]"
    unfolding shrunk_covariance_def S Let_def tr
    by (intro map_cong refl) simp
  then show ?thesis by (simp add: map_replicate_const)
qed

lemma np_squeeze2_replicate: "2 \<le> d \<Longrightarrow> np_squeeze2 (replicate d row) = Arr2 (replicate d row)"
  by (cases d; simp add: np_squeeze2_def split: list.splits nat.splits)

lemma null_vector:
  fixes a :: "nat \<Rightarrow> nat \<Rightarrow> real"
  shows "n < d \<Longrightarrow> \<exists>y. (\<exists>i<d. y i \<noteq> 0) \<and> (\<forall>k<n. (\<Sum>i<d. a k i * y i) = 0)"
proof (induction n arbitrary: d a)
  case 0
  then show ?case
    by (intro exI [of _ "\<lambda>i. 1"]) auto
next
  case (Suc n)
  then obtain d' where d: "d = Suc d'" and nd: "n < d'"
    by (cases d) auto
  show ?case
  proof (cases "\<forall>k<Suc n. a k d' = 0")
    case True
    define y where "y = (\<lambda>i. if i = d' then 1 else 0 :: real)"
    have "(\<Sum>i<d. a k i * y i) = 0" if "k < Suc n" for k
    proof -
      have "(\<Sum>i<d. a k i * y i) = (\<Sum>i<d. if i = d' then a k d' else 0)"
        by (intro sum.cong refl) (simp add: y_def)
      also have "\<dots> = a k d'"
        by (simp add: d)
      finally show ?thesis using True that by simp
    qed
    moreover have "\<exists>i<d. y i \<noteq> 0"
      by (rule exI [of _ d']) (simp add: y_def d)
    ultimately show ?thesis by blast
  next
    case False
    then obtain p where p: "p < Suc n" "a p d' \<noteq> 0" by blast
    define \<rho> where "\<rho> = (\<lambda>k. if k < p then k else Suc k)"
    define a' where "a' = (\<lambda>k i. a (\<rho> k) i - (a (\<rho> k) d' / a p d') * a p i)"
    obtain y' where y': "\<exists>i<d'. y' i \<noteq> 0" "\<forall>k<n. (\<Sum>i<d'. a' k i * y' i) = 0"
      using Suc.IH [OF nd, of a'] by blast
    define P where "P = (\<Sum>i<d'. a p i * y' i)"
    define t where "t = - P / a p d'"
    define y where "y = (\<lambda>i. if i < d' then y' i else t)"
    have row: "(\<Sum>i<d. a r i * y i) = (\<Sum>i<d'. a r i * y' i) + a r d' * t" for r
      by (simp add: d y_def)
    have "(\<Sum>i<d. a r i * y i) = 0" if r: "r < Suc n" for r
    proof (cases "r = p")
      case True
      then show ?thesis
        using p(2) by (simp add: row P_def [symmetric] t_def)
    next
      case False
      define k where "k = (if r < p then r else r - 1)"
      have k: "k < n" "\<rho> k = r"
        using False r p(1) by (auto simp: k_def \<rho>_def)
      have "(\<Sum>i<d'. a' k i * y' i) = 0"
        using y'(2) k(1) by blast
      then have "(\<Sum>i<d'. a r i * y' i - (a r d' / a p d') * (a p i * y' i)) = 0"
        by (simp add: a'_def k(2) algebra_simps)
      then have "(\<Sum>i<d'. a r i * y' i) = (a r d' / a p d') * P"
        by (simp add: sum_subtractf sum_distrib_left P_def)
      then show ?thesis
        using p(2) by (simp add: row t_def)
    qed
    moreover have "\<exists>i<d. y i \<noteq> 0"
      using y'(1) by (auto simp: y_def d intro: less_SucI)
    ultimately show ?thesis by blast
  qed
qed

lemma cond_le_from_bounds:
  assumes up: "\<And>x. length x = length A \<Longrightarrow> quad_form A x \<le> K * norm2 x"
    and low: "\<And>y. length y = length A \<Longrightarrow> c * norm2 y \<le> quad_form A y"
    and c: "0 < c" and K: "0 \<le> K"
  shows "cond_le A (K / c)"
  unfolding cond_le_def
proof (intro allI impI, elim conjE)
  fix x y :: "real list"
  assume x: "length x = length A" and y: "length y = length A"
  have "quad_form A x * norm2 y \<le> K * norm2 x * norm2 y"
    using up [OF x] norm2_nonneg [of y] by (simp add: mult_right_mono)
  also have "\<dots> = (K / c) * ((c * norm2 y) * norm2 x)"
    using c by simp
  also have "\<dots> \<le> (K / c) * (quad_form A y * norm2 x)"
    using low [OF y] norm2_nonneg [of x] K c
    by (intro mult_left_mono mult_right_mono) simp_all
  finally show "quad_form A x * norm2 y \<le> K / c * (quad_form A y * norm2 x)" .
qed

lemma not_cond_le:
  assumes "length x = length M" "length y = length M"
    and "quad_form M y = 0" "0 < norm2 y" "0 < quad_form M x"
  shows "\<not> cond_le M \<kappa>"
proof
  assume "cond_le M \<kappa>"
  then have "quad_form M x * norm2 y \<le> \<kappa> * (quad_form M y * norm2 x)"
    using assms(1,2) by (simp add: cond_le_def)
  then have "quad_form M x * norm2 y \<le> 0"
    by (simp add: assms(3))
  moreover have "0 < quad_form M x * norm2 y"
    using assms(4,5) by simp
  ultimately show False by simp
qed

lemma norm2_as_sum: "norm2 x = (\<Sum>i<length x. x ! i * x ! i)"
  by (simp add: norm2_def sum_list_upt_as_sum)

lemma sum_power2_le:
  fixes w :: "nat \<Rightarrow> real"
  shows "(\<Sum>i<d. w i)\<^sup>2 \<le> real d * (\<Sum>i<d. (w i)\<^sup>2)"
  using sum_list_power2_le [of "map w [0..<d]"]
  by (simp add: sum_list_upt_as_sum comp_def)

lemma dot_power2_le:
  fixes x a :: "nat \<Rightarrow> real"
  shows "(\<Sum>i<d. x i * a i)\<^sup>2 \<le> real d * ((\<Sum>i<d. x i * x i) * (\<Sum>j<d. a j * a j))"
proof -
  have "(\<Sum>i<d. (x i * a i)\<^sup>2) \<le> (\<Sum>i<d. x i * x i * (\<Sum>j<d. a j * a j))"
  proof (rule sum_mono)
    fix i assume "i \<in> {..<d}"
    then have "a i * a i \<le> (\<Sum>j<d. a j * a j)"
      by (intro member_le_sum) simp_all
    then have "x i * x i * (a i * a i) \<le> x i * x i * (\<Sum>j<d. a j * a j)"
      by (intro mult_left_mono) simp_all
    then show "(x i * a i)\<^sup>2 \<le> x i * x i * (\<Sum>j<d. a j * a j)"
      by (simp add: power2_eq_square mult_ac)
  qed
  also have "\<dots> = (\<Sum>i<d. x i * x i) * (\<Sum>j<d. a j * a j)"
    by (simp add: sum_distrib_right)
  finally have "real d * (\<Sum>i<d. (x i * a i)\<^sup>2)
                  \<le> real d * ((\<Sum>i<d. x i * x i) * (\<Sum>j<d. a j * a j))"
    by (intro mult_left_mono) simp_all
  with sum_power2_le [of "\<lambda>i. x i * a i" d] show ?thesis
    by (rule order_trans)
qed

lemma sample_upper:
  assumes "length x = d"
  shows "quad_form (sample_covariance d R) x
           \<le> (real d * (\<Sum>k<length R. \<Sum>j<d. (R ! k ! j - average_of_rows d R ! j)
                                             * (R ! k ! j - average_of_rows d R ! j))
                / real (length R)) * norm2 x"
proof -
  define a where "a = (\<lambda>k j. R ! k ! j - average_of_rows d R ! j)"
  define N where "N = (\<Sum>i<d. x ! i * x ! i)"
  have N: "norm2 x = N" by (simp add: norm2_as_sum assms N_def)
  have "(\<Sum>k<length R. (\<Sum>i<d. x ! i * a k i)\<^sup>2)
          \<le> (\<Sum>k<length R. real d * (N * (\<Sum>j<d. a k j * a k j)))"
    unfolding N_def by (intro sum_mono dot_power2_le)
  also have "\<dots> = real d * (\<Sum>k<length R. \<Sum>j<d. a k j * a k j) * N"
    by (simp add: sum_distrib_left mult_ac)
  finally have "(\<Sum>k<length R. (\<Sum>i<d. x ! i * a k i)\<^sup>2) / real (length R)
                  \<le> real d * (\<Sum>k<length R. \<Sum>j<d. a k j * a k j) * N / real (length R)"
    by (intro divide_right_mono) simp_all
  then show ?thesis
    by (simp add: quad_form_sample N a_def)
qed

lemma shrunk_bounds:
  assumes d: "0 < d" and n: "0 < length R" and len: "length x = d"
  defines "s \<equiv> shrinkage_intensity d R"
    and "mu \<equiv> (\<Sum>i<d. sample_covariance d R ! i ! i) / real d"
    and "K1 \<equiv> real d * (\<Sum>k<length R. \<Sum>j<d. (R ! k ! j - average_of_rows d R ! j)
                                             * (R ! k ! j - average_of_rows d R ! j))
                / real (length R)"
  shows "s * mu * norm2 x \<le> quad_form (shrunk_covariance d R) x"
    and "quad_form (shrunk_covariance d R) x \<le> ((1 - s) * K1 + s * mu) * norm2 x"
proof -
  have s: "0 \<le> 1 - s"
    using shrinkage_intensity_range [OF d n] by (simp add: s_def)
  have q: "quad_form (shrunk_covariance d R) x
             = (1 - s) * quad_form (sample_covariance d R) x + s * mu * norm2 x"
    by (simp add: quad_form_shrunk [OF len] s_def mu_def)
  have "0 \<le> (1 - s) * quad_form (sample_covariance d R) x"
    by (intro mult_nonneg_nonneg s psd_sample)
  then show "s * mu * norm2 x \<le> quad_form (shrunk_covariance d R) x"
    by (simp add: q)
  have "(1 - s) * quad_form (sample_covariance d R) x \<le> (1 - s) * (K1 * norm2 x)"
    unfolding K1_def by (intro mult_left_mono s sample_upper len)
  then show "quad_form (shrunk_covariance d R) x \<le> ((1 - s) * K1 + s * mu) * norm2 x"
    by (simp add: q algebra_simps)
qed

lemma shrunk_cond_le:
  assumes d: "0 < d" and n: "0 < length R"
    and s: "0 < shrinkage_intensity d R"
    and tr: "0 < (\<Sum>i<d. sample_covariance d R ! i ! i)"
  shows "\<exists>\<kappa>. cond_le (shrunk_covariance d R) \<kappa>"
proof -
  define s' where "s' = shrinkage_intensity d R"
  define mu where "mu = (\<Sum>i<d. sample_covariance d R ! i ! i) / real d"
  define K1 where "K1 = real d * (\<Sum>k<length R. \<Sum>j<d. (R ! k ! j - average_of_rows d R ! j)
                                             * (R ! k ! j - average_of_rows d R ! j))
                / real (length R)"
  have mu: "0 < mu" using tr d by (simp add: mu_def)
  have s1: "0 \<le> 1 - s'" "0 < s'"
    using shrinkage_intensity_range [OF d n] s by (simp_all add: s'_def)
  have K1: "0 \<le> K1"
    unfolding K1_def
    by (intro divide_nonneg_nonneg mult_nonneg_nonneg sum_nonneg zero_le_square) simp_all
  have c: "0 < s' * mu" using s1(2) mu by simp
  have K: "0 \<le> (1 - s') * K1 + s' * mu"
    using s1 K1 mu by (intro add_nonneg_nonneg mult_nonneg_nonneg) simp_all
  have "cond_le (shrunk_covariance d R) (((1 - s') * K1 + s' * mu) / (s' * mu))"
  proof (rule cond_le_from_bounds [OF _ _ c K])
    fix x :: "real list" assume "length x = length (shrunk_covariance d R)"
    then have x: "length x = d" by simp
    show "quad_form (shrunk_covariance d R) x \<le> ((1 - s') * K1 + s' * mu) * norm2 x"
      using shrunk_bounds(2) [OF d n x] by (simp add: s'_def mu_def K1_def)
    show "s' * mu * norm2 x \<le> quad_form (shrunk_covariance d R) x"
      using shrunk_bounds(1) [OF d n x] by (simp add: s'_def mu_def)
  qed
  then show ?thesis ..
qed

lemma unbiased_not_cond_le:
  assumes n: "2 \<le> length R" "length R \<le> d"
    and tr: "0 < (\<Sum>i<d. sample_covariance d R ! i ! i)"
  shows "\<not> cond_le (unbiased_sample_covariance d R) \<kappa>"
proof -
  define a where "a = (\<lambda>k j. R ! k ! j - average_of_rows d R ! j)"
  define m where "m = real (length R) - 1"
  have m: "0 < m" using n(1) by (simp add: m_def)
  have q: "quad_form (unbiased_sample_covariance d R) x
             = (\<Sum>k<length R. (\<Sum>i<d. x ! i * a k i)\<^sup>2) / m" for x
    by (simp add: quad_form_unbiased a_def m_def)
  \<comment> \<open>a direction in which the data do not vary\<close>
  have "length R - 1 < d" using n by simp
  have centred: "(\<Sum>k<length R. a k i) = 0" if "i < d" for i
  proof -
    have "average_of_rows d R ! i = (\<Sum>k<length R. R ! k ! i) / real (length R)"
      using that by (simp add: average_of_rows_def sum_list_as_sum)
    then show ?thesis
      using n(1) by (simp add: a_def sum_subtractf)
  qed
  obtain y where y: "\<exists>i<d. y i \<noteq> 0" "\<forall>k<length R - 1. (\<Sum>i<d. a k i * y i) = 0"
    using null_vector [OF \<open>length R - 1 < d\<close>, of a] by blast
  define l where "l = length R - 1"
  have l: "length R = Suc l" using n(1) by (simp add: l_def)
  have last: "(\<Sum>i<d. a l i * y i) = 0"
  proof -
    have "(\<Sum>k<Suc l. \<Sum>i<d. a k i * y i) = (\<Sum>i<d. \<Sum>k<Suc l. a k i * y i)"
      by (rule sum.swap)
    also have "\<dots> = (\<Sum>i<d. (\<Sum>k<Suc l. a k i) * y i)"
      by (simp only: sum_distrib_right)
    also have "\<dots> = (\<Sum>i<d. 0 * y i)"
      by (intro sum.cong refl) (simp only: centred [unfolded l] lessThan_iff)
    also have "\<dots> = 0"
      by simp
    finally have "(\<Sum>k<l. \<Sum>i<d. a k i * y i) + (\<Sum>i<d. a l i * y i) = 0"
      by simp
    moreover have "(\<Sum>k<l. \<Sum>i<d. a k i * y i) = 0"
      using y(2) by (simp add: l_def)
    ultimately show ?thesis by simp
  qed
  have all: "(\<Sum>i<d. a k i * y i) = 0" if "k < length R" for k
  proof (cases "k = l")
    case True
    then show ?thesis by (simp add: last)
  next
    case False
    with that have "k < length R - 1" by (simp add: l)
    with y(2) show ?thesis by blast
  qed
  define yl where "yl = map y [0..<d]"
  have yl: "length yl = d" by (simp add: yl_def)
  have "(\<Sum>i<d. yl ! i * a k i) = 0" if "k < length R" for k
  proof -
    have "(\<Sum>i<d. yl ! i * a k i) = (\<Sum>i<d. a k i * y i)"
      by (intro sum.cong refl) (simp add: yl_def mult.commute)
    then show ?thesis using all [OF that] by simp
  qed
  then have qy: "quad_form (unbiased_sample_covariance d R) yl = 0"
    by (simp add: q)
  have ny: "0 < norm2 yl"
  proof -
    obtain i where i: "i < d" "y i \<noteq> 0" using y(1) by blast
    have "norm2 yl = (\<Sum>j<d. y j * y j)"
      unfolding norm2_as_sum yl by (intro sum.cong refl) (simp add: yl_def)
    moreover have "0 < y i * y i" using i(2) by (auto simp: zero_less_mult_iff)
    moreover have "y i * y i \<le> (\<Sum>j<d. y j * y j)"
      using i(1) by (intro member_le_sum) simp_all
    ultimately show ?thesis by simp
  qed
  \<comment> \<open>a coordinate along which they do\<close>
  have "\<exists>i<d. 0 < sample_covariance d R ! i ! i"
  proof (rule ccontr)
    assume "\<not> (\<exists>i<d. 0 < sample_covariance d R ! i ! i)"
    then have "\<And>i. i \<in> {..<d} \<Longrightarrow> sample_covariance d R ! i ! i \<le> 0"
      by (meson lessThan_iff not_less)
    then have "(\<Sum>i<d. sample_covariance d R ! i ! i) \<le> 0"
      by (rule sum_nonpos)
    with tr show False by simp
  qed
  then obtain i where i: "i < d" "0 < sample_covariance d R ! i ! i" by blast
  have pos: "0 < (\<Sum>k<length R. a k i * a k i)"
  proof -
    have "0 < (\<Sum>k<length R. a k i * a k i) / real (length R)"
      using i by (simp add: sample_nth a_def)
    then show ?thesis
      using n(1) by (simp add: zero_less_divide_iff)
  qed
  define xl where "xl = map (\<lambda>j. if j = i then 1 else 0 :: real) [0..<d]"
  have xl: "length xl = d" by (simp add: xl_def)
  have "(\<Sum>j<d. xl ! j * a k j) = a k i" for k
  proof -
    have "(\<Sum>j<d. xl ! j * a k j) = (\<Sum>j<d. if j = i then a k i else 0)"
      by (intro sum.cong refl) (simp add: xl_def)
    then show ?thesis using i(1) by simp
  qed
  then have qx: "0 < quad_form (unbiased_sample_covariance d R) xl"
    using pos m by (simp add: q power2_eq_square)
  show ?thesis
    by (rule not_cond_le [OF _ _ qy ny qx]) (simp_all add: xl yl)
qed

lemma ones_valid:
  "is_ndarray2 ones_10x128" "all_finite ones_10x128" "shape0 ones_10x128 = 10"
  "shape1 ones_10x128 = 128" "reals ones_10x128 = replicate 10 (replicate 128 1)"
  by (simp_all add: ones_10x128_def is_ndarray2_def all_finite_def reals_def list_all_iff)

text \<open>
  The claim C7 as the specification states it fails on ten equal samples of dimension 128:
  both estimators return the zero matrix, so neither covariance has the smaller condition
  number.
\<close>

theorem identical_rows_same_covariance_counterexample:
  "mle_estimate_parameters NumPy_before_2_2 ones_10x128
     = Inr (Arr1 (replicate 128 (Fin 1)), Arr2 (replicate 128 (replicate 128 (Fin 0))))
   \<and> mle_estimate_parameters NumPy_from_2_2 ones_10x128
     = Inr (Arr1 (replicate 128 (Fin 1)), Arr2 (replicate 128 (replicate 128 (Fin 0))))
   \<and> fst (lw_estimate_parameters (LeoditWolfEstimator_init None) ones_10x128)
     = Inr (Arr1 (replicate 128 (Fin 1)), Arr2 (replicate 128 (replicate 128 (Fin 0))))"
proof -
  have a: "average_of_rows 128 (replicate 10 (replicate 128 1)) = replicate 128 (1::real)"
    by (rule average_of_equal_rows) simp_all
  have u: "unbiased_sample_covariance 128 (replicate 10 (replicate 128 1))
             = replicate 128 (replicate 128 0)"
    by (rule unbiased_of_equal_rows) simp_all
  have s: "shrunk_covariance 128 (replicate 10 (replicate 128 1))
             = replicate 128 (replicate 128 0)"
    by (rule shrunk_of_equal_rows) simp_all
  have sq: "np_squeeze2 (replicate 128 (replicate 128 (Fin 0)))
              = Arr2 (replicate 128 (replicate 128 (Fin 0)))"
    by (rule np_squeeze2_replicate) simp
  have m: "mle_estimate_parameters release ones_10x128
     = Inr (Arr1 (replicate 128 (Fin 1)), Arr2 (replicate 128 (replicate 128 (Fin 0))))"
    for release
    using mle_estimate_parameters_Fin [of ones_10x128 release]
    by (simp add: ones_valid a u sq)
  have l: "fst (lw_estimate_parameters (LeoditWolfEstimator_init None) ones_10x128)
     = Inr (Arr1 (replicate 128 (Fin 1)), Arr2 (replicate 128 (replicate 128 (Fin 0))))"
    using lw_estimate_parameters_shrunk [of ones_10x128 "LeoditWolfEstimator_init None"]
    by (simp add: ones_valid a s init_parameters)
  show ?thesis using m l by simp
qed

text \<open>
  C7, as the code has it (in exact arithmetic). For an array of finite values with at least
  two samples and no more samples than features (such as 10 samples of dimension 128),
  whenever the shrinkage intensity is positive and the samples are not all equal (the trace
  of the sample covariance is positive), the covariance of the shrinkage estimator has a
  strictly smaller condition number than the maximum-likelihood covariance: some finite
  \<open>\<kappa>\<close> bounds the ratio of any two Rayleigh quotients of the former and not of the latter,
  which is singular.
\<close>

theorem shrinkage_improves_condition_number:
  "is_ndarray2 X \<and> all_finite X \<and> 2 \<le> shape0 X \<and> shape0 X \<le> shape1 X \<and> 1 \<le> b
   \<and> 0 < shrinkage_intensity (shape1 X) (reals X)
   \<and> 0 < (\<Sum>i\<leftarrow>[0..<shape1 X]. sample_covariance (shape1 X) (reals X) ! i ! i)
   \<longrightarrow> (\<exists>mean_m cov_m mean_s cov_s \<kappa>.
          mle_estimate_parameters release X = Inr (mean_m, Arr2 (map (map Fin) cov_m))
        \<and> fst (lw_estimate_parameters (LeoditWolfEstimator_init (Some b)) X)
            = Inr (mean_s, Arr2 (map (map Fin) cov_s))
        \<and> cond_le cov_s \<kappa> \<and> \<not> cond_le cov_m \<kappa>)"
proof (intro impI, elim conjE)
  assume X: "is_ndarray2 X" "all_finite X" and n: "2 \<le> shape0 X" "shape0 X \<le> shape1 X"
    and b: "1 \<le> b"
    and s: "0 < shrinkage_intensity (shape1 X) (reals X)"
    and tr: "0 < (\<Sum>i\<leftarrow>[0..<shape1 X]. sample_covariance (shape1 X) (reals X) ! i ! i)"
  define d where "d = shape1 X"
  define R where "R = reals X"
  have len: "length R = shape0 X" by (simp add: R_def length_reals [OF X(1)])
  have d: "0 < d" "2 \<le> d" using n by (simp_all add: d_def)
  have pos: "0 < shape0 X" "0 < shape1 X" using n by simp_all
  have tr': "0 < (\<Sum>i<d. sample_covariance d R ! i ! i)"
    using tr by (simp add: sum_list_upt_as_sum d_def R_def)
  have nR: "0 < length R" using pos(1) by (simp add: len)
  have s': "0 < shrinkage_intensity d R" using s by (simp add: d_def R_def)
  from shrunk_cond_le [OF d(1) nR s' tr']
  obtain \<kappa> where k: "cond_le (shrunk_covariance d R) \<kappa>" by blast
  have nk: "\<not> cond_le (unbiased_sample_covariance d R) \<kappa>"
    by (rule unbiased_not_cond_le) (use n tr' in \<open>simp_all add: len d_def\<close>)
  have sq: "np_squeeze2 (map (map Fin) (unbiased_sample_covariance d R))
              = Arr2 (map (map Fin) (unbiased_sample_covariance d R))"
    using d(2) by (cases d; simp add: unbiased_sample_covariance_def Let_def np_squeeze2_def
        upt_conv_Cons split: list.splits nat.splits)
  have m: "mle_estimate_parameters release X
             = Inr (Arr1 (map Fin (average_of_rows d R)),
                    Arr2 (map (map Fin) (unbiased_sample_covariance d R)))"
    using mle_estimate_parameters_Fin [OF X n(1)] sq by (simp add: d_def R_def)
  have l: "fst (lw_estimate_parameters (LeoditWolfEstimator_init (Some b)) X)
             = Inr (Arr1 (map Fin (average_of_rows d R)),
                    Arr2 (map (map Fin) (shrunk_covariance d R)))"
    unfolding d_def R_def
    by (rule lw_estimate_parameters_shrunk) (simp_all add: X pos b init_parameters)
  show "\<exists>mean_m cov_m mean_s cov_s \<kappa>.
          mle_estimate_parameters release X = Inr (mean_m, Arr2 (map (map Fin) cov_m))
        \<and> fst (lw_estimate_parameters (LeoditWolfEstimator_init (Some b)) X)
            = Inr (mean_s, Arr2 (map (map Fin) cov_s))
        \<and> cond_le cov_s \<kappa> \<and> \<not> cond_le cov_m \<kappa>"
    using m l k nk by blast
qed

theorem shrinkage_improves_condition_number_witness:
  "is_ndarray2 m33 \<and> all_finite m33 \<and> 2 \<le> shape0 m33 \<and> shape0 m33 \<le> shape1 m33
   \<and> (1::int) \<le> 1000
   \<and> shrinkage_intensity 3 [[1, 2, 0], [3, 5, 1], [8, 13, 7]] = 32041 / 126814
   \<and> (\<Sum>i\<leftarrow>[0..<3]. sample_covariance 3 [[1, 2, 0], [3, 5, 1], [8, 13, 7]] ! i ! i) = 358 / 9
   \<and> (\<exists>mean_m cov_m mean_s cov_s \<kappa>.
          mle_estimate_parameters NumPy_before_2_2 m33 = Inr (mean_m, Arr2 (map (map Fin) cov_m))
        \<and> fst (lw_estimate_parameters (LeoditWolfEstimator_init (Some 1000)) m33)
            = Inr (mean_s, Arr2 (map (map Fin) cov_s))
        \<and> cond_le cov_s \<kappa> \<and> \<not> cond_le cov_m \<kappa>)
   \<and> (\<exists>mean_m cov_m mean_s cov_s \<kappa>.
          mle_estimate_parameters NumPy_from_2_2 m33 = Inr (mean_m, Arr2 (map (map Fin) cov_m))
        \<and> fst (lw_estimate_parameters (LeoditWolfEstimator_init (Some 1000)) m33)
            = Inr (mean_s, Arr2 (map (map Fin) cov_s))
        \<and> cond_le cov_s \<kappa> \<and> \<not> cond_le cov_m \<kappa>)"
proof -
  have v: "is_ndarray2 m33" "all_finite m33" "2 \<le> shape0 m33" "shape0 m33 \<le> shape1 m33"
    "shape1 m33 = 3" "reals m33 = [[1, 2, 0], [3, 5, 1], [8, 13, 7]]"
    by (simp_all add: m33_def is_ndarray2_def all_finite_def reals_def)
  have s: "shrinkage_intensity 3 [[1, 2, 0], [3, 5, 1], [8, 13, 7]] = 32041 / 126814"
    by code_simp
  have t: "(\<Sum>i\<leftarrow>[0..<3]. sample_covariance 3 [[1, 2, 0], [3, 5, 1], [8, 13, 7::real]] ! i ! i)
             = 358 / 9"
    by code_simp
  show ?thesis
    using shrinkage_improves_condition_number
            [where X = m33 and b = 1000 and release = NumPy_before_2_2]
          shrinkage_improves_condition_number
            [where X = m33 and b = 1000 and release = NumPy_from_2_2] v
    by (simp add: s t)
qed

section \<open>Results: the extractors\<close>

text \<open>
  C10. Whenever the extension found for the dataset path is not ".abc",
  CLaMPExtractor.extract_features_from_path raises ValueError and no loader has been called;
  whenever it is none of ".mid", ".midi", ".abc", CLaMP2Extractor.extract_features_from_path
  raises ValueError and no loader has been called.
\<close>

theorem extract_features_from_path_rejects_extension:
  "(get_dataset_ext env p = Inr ext \<and> ext \<noteq> ''.abc'' \<longrightarrow>
      clamp_extract_features_from_path env p =
        ([], Inl (ValueError (''CLAmP supports .abc files but got '' @ ext))))
   \<and> (get_dataset_ext env p = Inr ext \<and> ext \<notin> {''.mid'', ''.midi'', ''.abc''} \<longrightarrow>
      clamp2_extract_features_from_path env p =
        ([], Inl (ValueError
           (''CLAmP 2 supports .mid, .midi and .abc files but got '' @ ext))))"
  by (simp add: clamp_extract_features_from_path_def clamp2_extract_features_from_path_def)

theorem extract_features_from_path_rejects_extension_witness:
  "get_dataset_ext demo_env ''corpus.mid'' = Inr ''.mid''
   \<and> ''.mid'' \<noteq> ''.abc''
   \<and> clamp_extract_features_from_path demo_env ''corpus.mid'' =
        ([], Inl (ValueError ''CLAmP supports .abc files but got .mid''))
   \<and> get_dataset_ext demo_env ''corpus.xml'' = Inr ''.xml''
   \<and> ''.xml'' \<notin> {''.mid'', ''.midi'', ''.abc''}
   \<and> clamp2_extract_features_from_path demo_env ''corpus.xml'' =
        ([], Inl (ValueError ''CLAmP 2 supports .mid, .midi and .abc files but got .xml''))"
  using extract_features_from_path_rejects_extension [of demo_env "''corpus.mid''" "''.mid''"]
        extract_features_from_path_rejects_extension [of demo_env "''corpus.xml''" "''.xml''"]
  by (simp add: demo_env_def)


end
